theory Spec2Isabelle
  imports Main "HOL-Library.Log_Nat"
begin

section \<open>Environment overview widget: data orchestration and state derivation\<close>

text \<open>
  A shallow embedding of the class \<open>EnvironmentOverview\<close> of
  \<^verbatim>\<open>src/environment-overview.js\<close>. JavaScript exceptions are values of the type
  \<open>exn\<close>; a computation that may throw returns \<open>exn + 'a\<close> with \<open>Inl\<close> the thrown
  error. \<open>null\<close> and \<open>undefined\<close> are \<open>None\<close>.
\<close>

subsection \<open>Exceptions\<close>

datatype exn = Error string | TypeError string | SyntaxError string | URIError string

fun message :: "exn \<Rightarrow> string" where
  "message (Error m) = m"
| "message (TypeError m) = m"
| "message (SyntaxError m) = m"
| "message (URIError m) = m"

text \<open>\<^verbatim>\<open>try { body } catch { handler }\<close>\<close>

definition try_catch :: "exn + 'a \<Rightarrow> (exn \<Rightarrow> exn + 'a) \<Rightarrow> exn + 'a" where
  "try_catch body handler = (case body of Inl e \<Rightarrow> handler e | Inr v \<Rightarrow> Inr v)"

subsection \<open>The fetch wrapper \<open>_api\<close>\<close>

text \<open>
  What the platform's \<^verbatim>\<open>fetch(path)\<close> can do: the promise rejects (a transport failure),
  or it resolves to a response with its \<^verbatim>\<open>ok\<close> flag, whose \<^verbatim>\<open>json()\<close> either rejects
  (the body does not parse) or resolves to the parsed value (\<open>None\<close> for a JSON
  \<^verbatim>\<open>null\<close>).
\<close>

record 'a response =
  ok :: bool
  json :: "exn + 'a option"

datatype 'a fetch_outcome = Rejected exn | Resolved "'a response"

text \<open>
  \<^verbatim>\<open>
  async _api(path) {
    try {
      const r = await fetch(path);
      if (!r.ok) return null;
      return await r.json();
    } catch { return null; }
  }
  \<close>
  The argument is the outcome of \<^verbatim>\<open>fetch(path)\<close>.
\<close>

definition api :: "'a fetch_outcome \<Rightarrow> exn + 'a option" where
  "api out =
     try_catch
       (case out of
          Rejected e \<Rightarrow> Inl e
        | Resolved r \<Rightarrow> if \<not> ok r then Inr None else json r)
       (\<lambda>e. Inr None)"

subsection \<open>Strings and numbers\<close>

text \<open>
  Strings are lists of characters. A \<^verbatim>\<open>string | null\<close> slot is a \<open>string option\<close>;
  JavaScript tests such a slot by truthiness, and the empty string is falsy.
\<close>

fun truthy :: "string option \<Rightarrow> bool" where
  "truthy None = False"
| "truthy (Some s) = (s \<noteq> [])"

text \<open>\<^verbatim>\<open>a || b\<close> on such slots.\<close>

definition or_else :: "string option \<Rightarrow> string option \<Rightarrow> string option" where
  "or_else x y = (if truthy x then x else y)"

text \<open>\<^verbatim>\<open>s.toLowerCase()\<close> on the letters A to Z; every other character is kept.\<close>

definition lower_char :: "char \<Rightarrow> char" where
  "lower_char c =
     (if of_char c \<ge> (65::nat) \<and> of_char c \<le> (90::nat)
      then char_of (of_char c + (32::nat)) else c)"

definition toLowerCase :: "string \<Rightarrow> string" where
  "toLowerCase s = map lower_char s"

text \<open>\<^verbatim>\<open>s.startsWith(t)\<close> and \<^verbatim>\<open>s.includes(t)\<close>.\<close>

definition startsWith :: "string \<Rightarrow> string \<Rightarrow> bool" where
  "startsWith s t = (take (length t) s = t)"

fun includes_str :: "string \<Rightarrow> string \<Rightarrow> bool" where
  "includes_str [] t = (t = [])"
| "includes_str (c # cs) t = (startsWith (c # cs) t \<or> includes_str cs t)"

text \<open>
  A JavaScript number is a binary64 floating-point value. A finite one is the rational
  it denotes; \<open>fl\<close> rounds a rational to the nearest value with a 53-bit significand,
  ties to the even significand, as every arithmetic operation of the language does.
  The exponent is not bounded here: overflow to infinity and gradual underflow are
  outside the model, and so is \<^verbatim>\<open>NaN\<close> (the only division in what follows is
  guarded by a positive divisor).
\<close>

type_synonym num = rat

definition pow2 :: "int \<Rightarrow> rat" where
  "pow2 k = (if 0 \<le> k then 2 ^ nat k else 1 / 2 ^ nat (- k))"

text \<open>The binary exponent \<open>e\<close> of a positive rational: \<open>2^e \<le> x < 2^(e+1)\<close>.\<close>

definition exponent :: "rat \<Rightarrow> int" where
  "exponent x =
     (let (p, q) = quotient_of x;
          k = bitlen p - bitlen q
      in if pow2 k \<le> x then k else k - 1)"

text \<open>Rounding to the nearest integer, a tie to the even one.\<close>

definition round_half_even :: "rat \<Rightarrow> int" where
  "round_half_even x =
     (let f = \<lfloor>x\<rfloor>; r = x - of_int f
      in if r < 1 / 2 then f
         else if 1 / 2 < r then f + 1
         else if even f then f else f + 1)"

definition fl :: "rat \<Rightarrow> num" where
  "fl x =
     (if x = 0 then 0
      else let u = pow2 (exponent \<bar>x\<bar> - 52)
           in of_int (round_half_even (x / u)) * u)"

definition num_add :: "num \<Rightarrow> num \<Rightarrow> num" where
  "num_add x y = fl (x + y)"




text \<open>\<^verbatim>\<open>x || 0\<close> on an optional number: a missing field and zero both give zero.\<close>

definition or0 :: "num option \<Rightarrow> num" where
  "or0 x = (case x of None \<Rightarrow> 0 | Some v \<Rightarrow> if v \<noteq> 0 then v else 0)"

subsection \<open>The context resolver \<open>_tryUrlContext\<close>\<close>

text \<open>
  \<^verbatim>\<open>window.location\<close>: the path, the fragment (empty, or beginning with \<^verbatim>\<open>#\<close>) and the
  query (empty, or beginning with \<^verbatim>\<open>?\<close>).
\<close>

record location =
  pathname :: string
  hash :: string
  search :: string

definition wf_location :: "location \<Rightarrow> bool" where
  "wf_location loc =
     ((hash loc = [] \<or> hd (hash loc) = CHR ''#'') \<and>
      (search loc = [] \<or> hd (search loc) = CHR ''?''))"

text \<open>The value of a hexadecimal digit.\<close>

definition hex_val :: "char \<Rightarrow> nat option" where
  "hex_val c =
     (let n = (of_char c :: nat)
      in if 48 \<le> n \<and> n \<le> 57 then Some (n - 48)
         else if 65 \<le> n \<and> n \<le> 70 then Some (n - 55)
         else if 97 \<le> n \<and> n \<le> 102 then Some (n - 87)
         else None)"

text \<open>The byte that an escape \<^verbatim>\<open>%XY\<close> at the head of a string denotes, and the rest.\<close>

fun escape :: "string \<Rightarrow> (nat \<times> string) option" where
  "escape (p # x # y # rest) =
     (if p = CHR ''%'' then
        (case (hex_val x, hex_val y) of
           (Some h, Some l) \<Rightarrow> Some (16 * h + l, rest)
         | _ \<Rightarrow> None)
      else None)"
| "escape _ = None"

text \<open>
  \<open>n\<close> escapes in a row, each a UTF-8 continuation byte (\<^verbatim>\<open>10xxxxxx\<close>): their bytes,
  the payload bits accumulated onto \<open>acc\<close>, and the rest.
\<close>

fun continuation :: "nat \<Rightarrow> nat \<Rightarrow> string \<Rightarrow> (nat list \<times> nat \<times> string) option" where
  "continuation 0 acc s = Some ([], acc, s)"
| "continuation (Suc n) acc s =
     (case escape s of
        None \<Rightarrow> None
      | Some (b, rest) \<Rightarrow>
          if 128 \<le> b \<and> b < 192 then
            (case continuation n (acc * 64 + (b - 128)) rest of
               None \<Rightarrow> None
             | Some (bs, cp, rest') \<Rightarrow> Some (b # bs, cp, rest'))
          else None)"

text \<open>
  \<^verbatim>\<open>decodeURIComponent(s)\<close>. Every escape is replaced by the character it encodes; a
  \<^verbatim>\<open>%\<close> that does not begin an escape, and escapes that are not the UTF-8 encoding of a
  code point (a stray continuation byte, a missing one, an overlong form, a surrogate,
  a value above \<^verbatim>\<open>0x10FFFF\<close>) throw \<^verbatim>\<open>URIError\<close>. A character outside ASCII is kept in
  the string as the bytes of its UTF-8 encoding.
\<close>

function decodeURIComponent :: "string \<Rightarrow> exn + string" where
  "decodeURIComponent [] = Inr []"
| "decodeURIComponent (c # cs) =
     (if c \<noteq> CHR ''%'' then
        (case decodeURIComponent cs of Inl e \<Rightarrow> Inl e | Inr t \<Rightarrow> Inr (c # t))
      else
        (case escape (c # cs) of
           None \<Rightarrow> Inl (URIError ''URI malformed'')
         | Some (b, rest) \<Rightarrow>
             if b < 128 then
               (case decodeURIComponent (drop 2 cs) of
                  Inl e \<Rightarrow> Inl e
                | Inr t \<Rightarrow> Inr (char_of b # t))
             else
               (let n = (if 192 \<le> b \<and> b < 224 then 1
                         else if 224 \<le> b \<and> b < 240 then 2
                         else if 240 \<le> b \<and> b < 248 then 3 else 0);
                    lead = (if n = 1 then b - 192 else if n = 2 then b - 224 else b - 240);
                    least = (if n = 1 then 128 else if n = 2 then 2048 else 65536)
                in if n = 0 then Inl (URIError ''URI malformed'')
                   else
                     (case continuation n lead rest of
                        None \<Rightarrow> Inl (URIError ''URI malformed'')
                      | Some (bs, cp, rest') \<Rightarrow>
                          if cp < least \<or> (55296 \<le> cp \<and> cp < 57344) \<or> 1114111 < cp
                          then Inl (URIError ''URI malformed'')
                          else
                            (case decodeURIComponent (drop (2 + 3 * n) cs) of
                               Inl e \<Rightarrow> Inl e
                             | Inr t \<Rightarrow> Inr (map char_of (b # bs) @ t))))))"
  by pat_completeness auto
termination
  by (relation "measure length") auto

text \<open>
  \<^verbatim>\<open>new URLSearchParams(search).get(name)\<close>: the query, less one leading \<^verbatim>\<open>?\<close>, is cut
  at every \<^verbatim>\<open>&\<close>; an empty piece is skipped; a piece is cut at its first \<^verbatim>\<open>=\<close> into a
  name and a value, in both of which \<^verbatim>\<open>+\<close> stands for a space and an escape for its
  byte (a \<^verbatim>\<open>%\<close> that begins no escape stands for itself). The answer is the value of
  the first pair of that name, \<^verbatim>\<open>null\<close> when there is none.
\<close>

fun split_on :: "char \<Rightarrow> string \<Rightarrow> string list" where
  "split_on sep [] = [[]]"
| "split_on sep (c # cs) =
     (if c = sep then [] # split_on sep cs
      else (case split_on sep cs of
              [] \<Rightarrow> [[c]]
            | p # ps \<Rightarrow> (c # p) # ps))"

function form_decode :: "string \<Rightarrow> string" where
  "form_decode [] = []"
| "form_decode (c # cs) =
     (if c = CHR ''+'' then CHR '' '' # form_decode cs
      else (case escape (c # cs) of
              Some (b, rest) \<Rightarrow> char_of b # form_decode (drop 2 cs)
            | None \<Rightarrow> c # form_decode cs))"
  by pat_completeness auto
termination
  by (relation "measure length") auto

definition parse_pair :: "string \<Rightarrow> string \<times> string" where
  "parse_pair piece =
     (form_decode (takeWhile (\<lambda>c. c \<noteq> CHR ''='') piece),
      form_decode (drop 1 (dropWhile (\<lambda>c. c \<noteq> CHR ''='') piece)))"

definition URLSearchParams :: "string \<Rightarrow> (string \<times> string) list" where
  "URLSearchParams init =
     map parse_pair
       (filter (\<lambda>piece. piece \<noteq> [])
          (split_on (CHR ''&'') (if startsWith init ''?'' then drop 1 init else init)))"

definition get :: "(string \<times> string) list \<Rightarrow> string \<Rightarrow> string option" where
  "get qp name = map_of qp name"

text \<open>
  \<^verbatim>\<open>s.match(/\/projects\/([^\/\?#]+)\/environments\/([^\/\?#]+)/)\<close>. Neither group can
  hold a slash, so each is the longest run of characters other than \<^verbatim>\<open>/\<close>, \<^verbatim>\<open>?\<close> and
  \<^verbatim>\<open>#\<close> at its place; \<open>match_here\<close> matches the pattern at the head of the string and
  \<open>match\<close> tries every position from the left. The result is the pair of groups.
\<close>

definition segment_char :: "char \<Rightarrow> bool" where
  "segment_char c = (c \<noteq> CHR ''/'' \<and> c \<noteq> CHR ''?'' \<and> c \<noteq> CHR ''#'')"

definition match_here :: "string \<Rightarrow> (string \<times> string) option" where
  "match_here s =
     (if startsWith s ''/projects/'' then
        (let s1 = drop 10 s;
             g1 = takeWhile segment_char s1;
             s2 = dropWhile segment_char s1
         in if g1 \<noteq> [] \<and> startsWith s2 ''/environments/'' then
              (let g2 = takeWhile segment_char (drop 14 s2)
               in if g2 \<noteq> [] then Some (g1, g2) else None)
            else None)
      else None)"

fun match :: "string \<Rightarrow> (string \<times> string) option" where
  "match [] = match_here []"
| "match (c # cs) =
     (case match_here (c # cs) of
        Some m \<Rightarrow> Some m
      | None \<Rightarrow> match cs)"

record url_context =
  ctx_clusterId :: "string option"
  ctx_stackName :: "string option"
  ctx_clusterName :: "string option"

text \<open>
  The part of \<open>_tryUrlContext\<close> after a match \<open>m\<close>: the two assignments, either of which
  may throw inside the \<^verbatim>\<open>try\<close>; the \<^verbatim>\<open>catch\<close> then returns \<open>result\<close> as it stands.
\<close>

definition decode_groups :: "url_context \<Rightarrow> string \<times> string \<Rightarrow> url_context" where
  "decode_groups result m =
     (case decodeURIComponent (fst m) of
        Inl e \<Rightarrow> result
      | Inr stack \<Rightarrow>
          (case decodeURIComponent (snd m) of
             Inl e \<Rightarrow> result\<lparr>ctx_stackName := Some stack\<rparr>
           | Inr cluster \<Rightarrow>
               result\<lparr>ctx_stackName := Some stack, ctx_clusterName := Some cluster\<rparr>))"

text \<open>
  \<^verbatim>\<open>
  _tryUrlContext() {
    var result = { clusterId: null, stackName: null, clusterName: null };
    try {
      var search = ...; var hash = ...; var pathname = ...;
      var full = pathname + hash + search;
      var qp = new URLSearchParams(search);
      if (qp.get('clusterId'))  { result.clusterId = qp.get('clusterId');  return result; }
      if (qp.get('cluster-id')) { result.clusterId = qp.get('cluster-id'); return result; }
      var m = full.match(...);
      if (m) { result.stackName = decodeURIComponent(m[1]);
               result.clusterName = decodeURIComponent(m[2]); return result; }
      m = hash.match(...);
      if (m) { ... the same ... }
    } catch (e) { /* ignore */ }
    return result;
  }
  \<close>
\<close>

definition tryUrlContext :: "location \<Rightarrow> url_context" where
  "tryUrlContext loc =
     (let result = \<lparr>ctx_clusterId = None, ctx_stackName = None, ctx_clusterName = None\<rparr>;
          full = pathname loc @ hash loc @ search loc;
          qp = URLSearchParams (search loc)
      in if truthy (get qp ''clusterId'') then result\<lparr>ctx_clusterId := get qp ''clusterId''\<rparr>
         else if truthy (get qp ''cluster-id'') then result\<lparr>ctx_clusterId := get qp ''cluster-id''\<rparr>
         else (case match full of
                 Some m \<Rightarrow> decode_groups result m
               | None \<Rightarrow>
                   (case match (hash loc) of
                      Some m \<Rightarrow> decode_groups result m
                    | None \<Rightarrow> result)))"

subsection \<open>Payloads of the backend\<close>

text \<open>
  The JSON objects the widget reads, with the fields it reads; a field that is missing
  or \<^verbatim>\<open>null\<close> is \<open>None\<close>. A payload the widget only stores and tests for presence
  (an object or an array, which is truthy) is kept as its text (\<open>payload\<close>); the
  elements of \<^verbatim>\<open>inProgressDeployments\<close> are such payloads. A flag is a boolean.
\<close>

type_synonym payload = string

record stack_t =
  projectTypeId :: "string option"

record cluster_t =
  clusterState :: "string option"
  cloud :: "string option"
  cloudAccountId :: "string option"
  configured :: "bool option"
  hasK8sCredentials :: "bool option"
  componentVersions :: "string list option"  \<comment> \<open>the keys of the object\<close>
  stack :: "stack_t option"

record deploymentsStats_t =
  successReleases :: "num option"
  failedReleases :: "num option"
  noChangeReleases :: "num option"
  isFirstRelease :: "bool option"

record overview_t =
  cluster :: "cluster_t option"
  inProgressDeployments :: "payload list option"
  deploymentsStats :: "deploymentsStats_t option"

record varCounts_t =
  variableCount :: "num option"
  secretCount :: "num option"

text \<open>The answer of the name-to-id resolution call, and of the cost-explorer probe.\<close>

record idinfo =
  info_id :: "string option"
  info_clusterId :: "string option"

datatype cost = CostBool bool | CostObject "bool option"  \<comment> \<open>the field \<^verbatim>\<open>enabled\<close>\<close>

text \<open>\<^verbatim>\<open>this.env || {}\<close>: the object without any field.\<close>

definition no_fields :: cluster_t where
  "no_fields =
     \<lparr>clusterState = None, cloud = None, cloudAccountId = None, configured = None,
      hasK8sCredentials = None, componentVersions = None, stack = None\<rparr>"

subsection \<open>The widget\<close>

text \<open>
  What the shadow DOM shows, section by section. The header holds nothing, the boot
  error, or the rendered header; the tab content holds nothing, the picker, or the
  panel of a tab, for the three lazy tabs with a flag telling whether the panel shows
  its "Loading..." placeholder in place of the data.
\<close>

datatype header_html = NoHeader | BootError string | Header

datatype tab_html =
    NoPanel | Picker | OverviewTab | ReleasesTab bool | ResourcesTab bool | ConfigTab
  | ScheduleTab bool

record dom_t =
  loading_overlay :: bool  \<comment> \<open>displayed or not\<close>
  header_section :: header_html
  banners_section :: bool  \<comment> \<open>rendered or empty\<close>
  cards_section :: bool
  tabs_nav :: bool
  tab_content :: tab_html

text \<open>The requests the widget sends, one constructor for each endpoint.\<close>

datatype request =
    InfoReq "string option" "string option"
      \<comment> \<open>\<^verbatim>\<open>/cc-ui/v1/clusters/stack/{stackName}/cluster/{clusterName}/info\<close>\<close>
  | OverviewReq "string option"  \<comment> \<open>\<^verbatim>\<open>/cc-ui/v1/clusters/{clusterId}/deployments/overview\<close>\<close>
  | ResourceStatsReq "string option"  \<comment> \<open>\<^verbatim>\<open>/cc-ui/v1/clusters/{clusterId}/resource-stats\<close>\<close>
  | VariableCountsReq "string option"  \<comment> \<open>\<^verbatim>\<open>/cc-ui/v1/clusters/{clusterId}/variable-counts\<close>\<close>
  | CostEnabledReq  \<comment> \<open>\<^verbatim>\<open>/cc-ui/v1/cost-explorer/aws/enabled\<close>\<close>
  | DeploymentsReq "string option"
      \<comment> \<open>\<^verbatim>\<open>/cc-ui/v1/clusters/{clusterId}/deployments?size=25&page=0\<close>\<close>
  | ResourcesInfoReq "string option"
      \<comment> \<open>\<^verbatim>\<open>/cc-ui/v1/dropdown/cluster/{clusterId}/resources-info?includeContent=false\<close>\<close>
  | IngressRulesReq "string option"
      \<comment> \<open>\<^verbatim>\<open>/cc-ui/v1/clusters/{clusterId}/k8s-explorer/ingress-rules\<close>\<close>
  | AvailabilityScheduleReq "string option"
      \<comment> \<open>\<^verbatim>\<open>/cc-ui/v1/clusters/{clusterId}/availability-schedule\<close>\<close>
  | MaintenanceWindowReq "string option"  \<comment> \<open>\<^verbatim>\<open>/cc-ui/v1/maintenance-window/{clusterId}\<close>\<close>
  | StacksReq  \<comment> \<open>\<^verbatim>\<open>/cc-ui/v1/stacks/\<close>\<close>
  | ClustersOverviewReq string  \<comment> \<open>\<^verbatim>\<open>/cc-ui/v1/stacks/{stackName}/clusters-overview\<close>\<close>

text \<open>
  An \<^verbatim>\<open>async\<close> method runs until its first \<^verbatim>\<open>await\<close> on a request and is then
  suspended until the request settles. These are the suspended calls: \<open>_loadData\<close> at
  its first and at its second \<^verbatim>\<open>await\<close>, \<open>_loadSecondary\<close>, \<open>_loadTabData\<close> in each of
  its three branches (for the resources tab with the value that \<open>_hasKubernetes()\<close>
  had when the two requests were made), \<open>_refreshOverview\<close>, and the two loaders of
  the picker.
\<close>

datatype suspended =
    LoadData_resolve | LoadData_critical | LoadSecondary
  | LoadTabData_releases | LoadTabData_resources bool | LoadTabData_schedule
  | RefreshOverview | LoadPickerProjects | LoadPickerEnvironments

text \<open>
  The fields of the class, as the constructor lists them, then the world around the
  instance: its shadow DOM, the requests sent so far (the oldest first), the suspended calls,
  and the interval timers that are running, each with its period in milliseconds
  (\<open>next_timer\<close> is the handle that the next \<^verbatim>\<open>setInterval\<close> returns).
\<close>

record widget =
  clusterId :: "string option"
  stackName :: "string option"
  clusterName :: "string option"
  overview :: "overview_t option"
  env :: "cluster_t option"
  resourceStats :: "payload option"
  varCounts :: "varCounts_t option"
  deployments :: "payload option"
  resources :: "payload option"
  ingresses :: "payload option"
  schedule :: "payload option"
  maintenanceWin :: "payload option"
  costEnabled :: bool
  activeTab :: string
  isLoading :: bool
  error :: "string option"
  refreshTimer :: "nat option"
  shadowRoot :: dom_t
  requests :: "request list"
  suspended :: "suspended list"
  timers :: "(nat \<times> nat) list"
  next_timer :: nat

text \<open>The constructor, with the empty sections that \<open>render()\<close> writes.\<close>

definition constructor :: widget where
  "constructor =
     \<lparr>clusterId = None, stackName = None, clusterName = None,
      overview = None, env = None, resourceStats = None, varCounts = None,
      deployments = None, resources = None, ingresses = None, schedule = None,
      maintenanceWin = None, costEnabled = False,
      activeTab = ''overview'', isLoading = True, error = None, refreshTimer = None,
      shadowRoot = \<lparr>loading_overlay = True, header_section = NoHeader, banners_section = False,
              cards_section = False, tabs_nav = False, tab_content = NoPanel\<rparr>,
      requests = [], suspended = [], timers = [], next_timer = 1\<rparr>"

text \<open>\<^verbatim>\<open>setInterval(f, ms)\<close> and \<^verbatim>\<open>clearInterval(handle)\<close>.\<close>

definition setInterval :: "nat \<Rightarrow> widget \<Rightarrow> nat \<times> widget" where
  "setInterval ms w =
     (next_timer w, w\<lparr>timers := timers w @ [(next_timer w, ms)], next_timer := Suc (next_timer w)\<rparr>)"

definition clearInterval :: "nat option \<Rightarrow> widget \<Rightarrow> widget" where
  "clearInterval handle w =
     (case handle of
        None \<Rightarrow> w
      | Some h \<Rightarrow> w\<lparr>timers := filter (\<lambda>t. fst t \<noteq> h) (timers w)\<rparr>)"

text \<open>Sending a request, and suspending a call.\<close>

definition send :: "request \<Rightarrow> widget \<Rightarrow> widget" where
  "send r w = w\<lparr>requests := requests w @ [r]\<rparr>"

definition suspend :: "suspended \<Rightarrow> widget \<Rightarrow> widget" where
  "suspend c w = w\<lparr>suspended := suspended w @ [c]\<rparr>"

subsection \<open>State derivation\<close>

text \<open>
  \<^verbatim>\<open>
  _hasKubernetes() {
    const env = this.env;
    if (!env) return false;
    if (env.cloud === 'KUBERNETES') return true;
    if (env.hasK8sCredentials === true) return true;
    const cv = env.componentVersions || {};
    return Object.keys(cv).some(k =>
      k.toLowerCase().includes('kubernetes') || k.toLowerCase().includes('k8s'));
  }
  \<close>
\<close>

definition hasKubernetes :: "widget \<Rightarrow> bool" where
  "hasKubernetes w =
     (case env w of
        None \<Rightarrow> False
      | Some e \<Rightarrow>
          if cloud e = Some ''KUBERNETES'' then True
          else if hasK8sCredentials e = Some True then True
          else (let cv = (case componentVersions e of None \<Rightarrow> [] | Some ks \<Rightarrow> ks)
                in list_ex (\<lambda>k. includes_str (toLowerCase k) ''kubernetes'' \<or>
                                includes_str (toLowerCase k) ''k8s'') cv))"















text \<open>
  The launch-readiness checklist of \<open>_buildLaunchReadiness(env, isLegacy)\<close>:
  \<^verbatim>\<open>
  const hasK8s       = this._hasKubernetes();
  const hasCloudAcct = !!env.cloudAccountId;
  const hasVars      = (this.varCounts && ((this.varCounts.variableCount || 0)
                          + (this.varCounts.secretCount || 0))) > 0;
  const isConfigured = !!env.configured;
  if (isLegacy) {
    const checks = [
      { label: 'Environment configured', ok: isConfigured, hint: ... },
      { label: 'Cloud account linked',   ok: hasCloudAcct, hint: ... },
      { label: 'Kubernetes credentials', ok: !hasK8s || !!env.hasK8sCredentials, hint: ...,
        skip: !hasK8s },
      { label: 'Variables populated',    ok: hasVars,      hint: ... }
    ].filter(c => !c.skip);
    const allOk = checks.every(c => c.ok);
    ...
  }
  \<close>
  A check without the field \<^verbatim>\<open>skip\<close> is not skipped. For a blueprint environment the
  card has no checks.
\<close>

record check =
  c_label :: string
  c_ok :: bool
  c_hint :: string
  c_skip :: bool

definition hasCloudAcct :: "cluster_t \<Rightarrow> bool" where
  "hasCloudAcct e = truthy (cloudAccountId e)"

definition hasVars :: "widget \<Rightarrow> bool" where
  "hasVars w =
     (case varCounts w of
        None \<Rightarrow> False
      | Some vc \<Rightarrow> num_add (or0 (variableCount vc)) (or0 (secretCount vc)) > 0)"

definition isConfigured :: "cluster_t \<Rightarrow> bool" where
  "isConfigured e = (configured e = Some True)"

definition all_checks :: "widget \<Rightarrow> cluster_t \<Rightarrow> check list" where
  "all_checks w e =
     (let hasK8s = hasKubernetes w
      in [\<lparr>c_label = ''Environment configured'', c_ok = isConfigured e,
            c_hint = ''Set cloud provider and credentials in environment settings'',
            c_skip = False\<rparr>,
          \<lparr>c_label = ''Cloud account linked'', c_ok = hasCloudAcct e,
            c_hint = ''Link a '' @ (case or_else (cloud e) (Some ''cloud'') of
                                      Some c \<Rightarrow> c | None \<Rightarrow> []) @
                     '' account to this environment'',
            c_skip = False\<rparr>,
          \<lparr>c_label = ''Kubernetes credentials'',
            c_ok = (\<not> hasK8s \<or> hasK8sCredentials e = Some True),
            c_hint = ''Configure K8s access credentials'', c_skip = (\<not> hasK8s)\<rparr>,
          \<lparr>c_label = ''Variables populated'', c_ok = hasVars w,
            c_hint = ''Set required environment variables before launch'',
            c_skip = False\<rparr>])"

datatype readiness = Legacy_card "check list" bool | Blueprint_card

definition buildLaunchReadiness :: "widget \<Rightarrow> cluster_t \<Rightarrow> bool \<Rightarrow> readiness" where
  "buildLaunchReadiness w e isLegacy =
     (if isLegacy then
        (let checks = filter (\<lambda>c. \<not> c_skip c) (all_checks w e);
             allOk = list_all c_ok checks
         in Legacy_card checks allOk)
      else Blueprint_card)"

text \<open>
  Where \<open>_buildOverviewTab\<close> decides whether the card is shown, and for which kind of
  environment:
  \<^verbatim>\<open>
  const env      = this.env || {};
  const state    = env.clusterState || 'UNKNOWN';
  const isLegacy = !(env.stack && env.stack.projectTypeId);
  const isNeverLaunched =
    (state === 'STOPPED' && this.overview && this.overview.deploymentsStats
       && this.overview.deploymentsStats.isFirstRelease) ||
    (state === 'STOPPED' && !this.overview);
  ... ${isNeverLaunched ? this._buildLaunchReadiness(env, isLegacy) : ''}
  \<close>
\<close>

definition env_or_empty :: "widget \<Rightarrow> cluster_t" where
  "env_or_empty w = (case env w of None \<Rightarrow> no_fields | Some e \<Rightarrow> e)"

definition isLegacy :: "cluster_t \<Rightarrow> bool" where
  "isLegacy e = (\<not> (case stack e of None \<Rightarrow> False | Some st \<Rightarrow> truthy (projectTypeId st)))"

definition isNeverLaunched :: "widget \<Rightarrow> bool" where
  "isNeverLaunched w =
     (let state = or_else (clusterState (env_or_empty w)) (Some ''UNKNOWN'')
      in (state = Some ''STOPPED'' \<and>
          (case overview w of
             None \<Rightarrow> False
           | Some ov \<Rightarrow>
               (case deploymentsStats ov of
                  None \<Rightarrow> False
                | Some ds \<Rightarrow> isFirstRelease ds = Some True))) \<or>
         (state = Some ''STOPPED'' \<and> overview w = None))"

definition launch_readiness :: "widget \<Rightarrow> readiness option" where
  "launch_readiness w =
     (if isNeverLaunched w
      then Some (buildLaunchReadiness w (env_or_empty w) (isLegacy (env_or_empty w)))
      else None)"

subsection \<open>Rendering\<close>

text \<open>
  The render methods write one section each; with the payloads as above, and a cluster
  state that is a state name of the backend, building a section does not throw.
  \<open>_renderTabContent(tab)\<close> writes the
  panel of the tab; a lazy tab whose data is \<^verbatim>\<open>null\<close> gets its "Loading..." placeholder
  (\<open>_buildReleasesTab\<close>, \<open>_buildResourcesTab\<close>, \<open>_buildScheduleTab\<close>), and a name that
  is none of the five leaves the panel as it is.
\<close>

definition renderHeader :: "widget \<Rightarrow> widget" where
  "renderHeader w = w\<lparr>shadowRoot := (shadowRoot w)\<lparr>header_section := Header\<rparr>\<rparr>"

definition renderBanners :: "widget \<Rightarrow> widget" where
  "renderBanners w = w\<lparr>shadowRoot := (shadowRoot w)\<lparr>banners_section := True\<rparr>\<rparr>"

definition renderCards :: "widget \<Rightarrow> widget" where
  "renderCards w = w\<lparr>shadowRoot := (shadowRoot w)\<lparr>cards_section := True\<rparr>\<rparr>"

definition renderTabsNav :: "widget \<Rightarrow> widget" where
  "renderTabsNav w = w\<lparr>shadowRoot := (shadowRoot w)\<lparr>tabs_nav := True\<rparr>\<rparr>"

definition renderTabContent :: "string \<Rightarrow> widget \<Rightarrow> widget" where
  "renderTabContent tab w =
     (if tab = ''overview'' then w\<lparr>shadowRoot := (shadowRoot w)\<lparr>tab_content := OverviewTab\<rparr>\<rparr>
      else if tab = ''releases''
        then w\<lparr>shadowRoot := (shadowRoot w)\<lparr>tab_content := ReleasesTab (deployments w = None)\<rparr>\<rparr>
      else if tab = ''resources''
        then w\<lparr>shadowRoot := (shadowRoot w)\<lparr>tab_content := ResourcesTab (resources w = None)\<rparr>\<rparr>
      else if tab = ''config'' then w\<lparr>shadowRoot := (shadowRoot w)\<lparr>tab_content := ConfigTab\<rparr>\<rparr>
      else if tab = ''schedule''
        then w\<lparr>shadowRoot := (shadowRoot w)\<lparr>tab_content := ScheduleTab (schedule w = None)\<rparr>\<rparr>
      else w)"

text \<open>
  \<^verbatim>\<open>
  _renderAll() {
    const lo = ...; if (lo) lo.style.display = 'none';
    if (this.error && !this.env) {
      this.shadowRoot.getElementById('header-section').innerHTML =
        `<div class="boot-error">Failed to load environment: ${this.error}</div>`;
      return;
    }
    this._renderHeader(); this._renderBanners(); this._renderCards();
    this._renderTabsNav(); this._renderTabContent(this.activeTab);
  }
  \<close>
\<close>

definition renderAll :: "widget \<Rightarrow> widget" where
  "renderAll w =
     (let w1 = w\<lparr>shadowRoot := (shadowRoot w)\<lparr>loading_overlay := False\<rparr>\<rparr>;
          sections =
            renderTabContent (activeTab w1)
              (renderTabsNav (renderCards (renderBanners (renderHeader w1))))
      in case error w1 of
           None \<Rightarrow> sections
         | Some msg \<Rightarrow>
             if msg \<noteq> [] \<and> env w1 = None
             then w1\<lparr>shadowRoot := (shadowRoot w1)\<lparr>header_section :=
                        BootError (''Failed to load environment: '' @ msg)\<rparr>\<rparr>
             else sections)"

subsection \<open>The refresh timer\<close>

text \<open>
  \<^verbatim>\<open>
  _maybeStartRefresh() {
    const state      = this.env && this.env.clusterState;
    const inProgress = this.overview && this.overview.inProgressDeployments
                       && this.overview.inProgressDeployments.length > 0;
    const activeStates = ['LAUNCHING','DESTROYING','SCALING_UP','SCALING_DOWN'];
    if (inProgress || activeStates.indexOf(state) !== -1) {
      if (this.refreshTimer) clearInterval(this.refreshTimer);
      this.refreshTimer = setInterval(() => this._refreshOverview(), 15000);
    }
  }
  \<close>
  A timer handle is truthy unless it is zero.
\<close>

definition activeStates :: "string list" where
  "activeStates = [''LAUNCHING'', ''DESTROYING'', ''SCALING_UP'', ''SCALING_DOWN'']"

definition is_active :: "string option \<Rightarrow> bool" where
  "is_active state = (case state of None \<Rightarrow> False | Some st \<Rightarrow> st \<in> set activeStates)"

definition has_in_progress :: "overview_t \<Rightarrow> bool" where
  "has_in_progress ov =
     (case inProgressDeployments ov of None \<Rightarrow> False | Some ds \<Rightarrow> 0 < length ds)"

definition maybeStartRefresh :: "widget \<Rightarrow> widget" where
  "maybeStartRefresh w =
     (let state = (case env w of None \<Rightarrow> None | Some e \<Rightarrow> clusterState e);
          inProgress = (case overview w of None \<Rightarrow> False | Some ov \<Rightarrow> has_in_progress ov)
      in if inProgress \<or> is_active state then
           (let w1 = (case refreshTimer w of
                        None \<Rightarrow> w
                      | Some h \<Rightarrow> if h \<noteq> 0 then clearInterval (Some h) w else w);
                (h, w2) = setInterval 15000 w1
            in w2\<lparr>refreshTimer := Some h\<rparr>)
         else w)"

text \<open>
  \<^verbatim>\<open>
  async _refreshOverview() {
    const fresh = await this._api(`/cc-ui/v1/clusters/${this.clusterId}/deployments/overview`);
    if (!fresh) return;
    this.overview = fresh;
    this.env      = fresh.cluster || this.env;
    this._renderHeader(); this._renderBanners(); this._renderCards();
    const state      = this.env && this.env.clusterState;
    const inProgress = fresh.inProgressDeployments && fresh.inProgressDeployments.length > 0;
    const activeStates = [...];
    if (!inProgress && activeStates.indexOf(state) === -1) {
      clearInterval(this.refreshTimer);
      this.refreshTimer = null;
    }
  }
  \<close>
  The call sends its request and is suspended; \<open>refreshOverview_resume\<close> is the rest
  of the method, run when the request has settled with the given outcome.
\<close>

definition refreshOverview :: "widget \<Rightarrow> widget" where
  "refreshOverview w = suspend RefreshOverview (send (OverviewReq (clusterId w)) w)"

definition refreshOverview_resume :: "overview_t fetch_outcome \<Rightarrow> widget \<Rightarrow> widget" where
  "refreshOverview_resume out w =
     (case api out of
        Inl e \<Rightarrow> w
      | Inr None \<Rightarrow> w
      | Inr (Some fresh) \<Rightarrow>
          (let w1 = w\<lparr>overview := Some fresh,
                       env := (case cluster fresh of Some c \<Rightarrow> Some c | None \<Rightarrow> env w)\<rparr>;
               w2 = renderCards (renderBanners (renderHeader w1));
               state = (case env w2 of None \<Rightarrow> None | Some e \<Rightarrow> clusterState e);
               inProgress = has_in_progress fresh
           in if \<not> inProgress \<and> \<not> is_active state
              then (clearInterval (refreshTimer w2) w2)\<lparr>refreshTimer := None\<rparr>
              else w2))"

subsection \<open>The staged loader\<close>

text \<open>
  \<^verbatim>\<open>
  async _loadSecondary() {
    const costData = await this._api('/cc-ui/v1/cost-explorer/aws/enabled');
    this.costEnabled = costData === true || (costData && costData.enabled === true);
    ... the cost section is displayed or hidden accordingly ...
  }
  \<close>
\<close>

definition loadSecondary :: "widget \<Rightarrow> widget" where
  "loadSecondary w = suspend LoadSecondary (send CostEnabledReq w)"

definition loadSecondary_resume :: "cost fetch_outcome \<Rightarrow> widget \<Rightarrow> widget" where
  "loadSecondary_resume out w =
     (case api out of
        Inl e \<Rightarrow> w
      | Inr costData \<Rightarrow>
          w\<lparr>costEnabled :=
               (costData = Some (CostBool True) \<or> costData = Some (CostObject (Some True)))\<rparr>)"

text \<open>
  \<^verbatim>\<open>
  async _loadTabData(tab) {
    if (tab === 'releases' && !this.deployments) {
      this.deployments = await this._api(`.../deployments?size=25&page=0`);
      if (this.activeTab === 'releases') this._renderTabContent('releases');
    }
    if (tab === 'resources' && !this.resources) {
      const [res, ing] = await Promise.all([
        this._api(`.../resources-info?includeContent=false`),
        this._hasKubernetes() ? this._api(`.../k8s-explorer/ingress-rules`)
                              : Promise.resolve(null) ]);
      this.resources = res; this.ingresses = ing;
      if (this.activeTab === 'resources') this._renderTabContent('resources');
    }
    if (tab === 'schedule' && !this.schedule) {
      const [sched, mw] = await Promise.all([
        this._api(`.../availability-schedule`), this._api(`/cc-ui/v1/maintenance-window/...`) ]);
      this.schedule = sched; this.maintenanceWin = mw;
      if (this.activeTab === 'schedule') this._renderTabContent('schedule');
    }
  }
  \<close>
  The three conditions name three different tabs, so at most one branch is taken in a
  call, and what follows a branch after its \<^verbatim>\<open>await\<close> takes no other.
\<close>

definition loadTabData :: "string \<Rightarrow> widget \<Rightarrow> widget" where
  "loadTabData tab w =
     (if tab = ''releases'' \<and> deployments w = None then
        suspend LoadTabData_releases (send (DeploymentsReq (clusterId w)) w)
      else if tab = ''resources'' \<and> resources w = None then
        (let w1 = send (ResourcesInfoReq (clusterId w)) w;
             w2 = (if hasKubernetes w then send (IngressRulesReq (clusterId w)) w1 else w1)
         in suspend (LoadTabData_resources (hasKubernetes w)) w2)
      else if tab = ''schedule'' \<and> schedule w = None then
        suspend LoadTabData_schedule
          (send (MaintenanceWindowReq (clusterId w))
             (send (AvailabilityScheduleReq (clusterId w)) w))
      else w)"

definition loadTabData_releases_resume :: "payload fetch_outcome \<Rightarrow> widget \<Rightarrow> widget" where
  "loadTabData_releases_resume out w =
     (case api out of
        Inl e \<Rightarrow> w
      | Inr v \<Rightarrow>
          (let w1 = w\<lparr>deployments := v\<rparr>
           in if activeTab w1 = ''releases'' then renderTabContent ''releases'' w1 else w1))"

definition loadTabData_resources_resume ::
    "bool \<Rightarrow> payload fetch_outcome \<Rightarrow> payload fetch_outcome \<Rightarrow> widget \<Rightarrow> widget" where
  "loadTabData_resources_resume kube out_res out_ing w =
     (case api out_res of
        Inl e \<Rightarrow> w
      | Inr res \<Rightarrow>
          (case (if kube then api out_ing else Inr None) of
             Inl e \<Rightarrow> w
           | Inr ing \<Rightarrow>
               (let w1 = w\<lparr>resources := res, ingresses := ing\<rparr>
                in if activeTab w1 = ''resources'' then renderTabContent ''resources'' w1
                   else w1)))"

definition loadTabData_schedule_resume ::
    "payload fetch_outcome \<Rightarrow> payload fetch_outcome \<Rightarrow> widget \<Rightarrow> widget" where
  "loadTabData_schedule_resume out_sched out_mw w =
     (case api out_sched of
        Inl e \<Rightarrow> w
      | Inr sched \<Rightarrow>
          (case api out_mw of
             Inl e \<Rightarrow> w
           | Inr mw \<Rightarrow>
               (let w1 = w\<lparr>schedule := sched, maintenanceWin := mw\<rparr>
                in if activeTab w1 = ''schedule'' then renderTabContent ''schedule'' w1
                   else w1)))"

text \<open>
  \<^verbatim>\<open>
  async _resolveClusterId() {
    if (this.clusterId) return this.clusterId;
    const r = await fetch(`/cc-ui/v1/clusters/stack/.../cluster/.../info`);
    if (!r.ok) throw new Error('Could not resolve cluster ID from name');
    const d = await r.json();
    return d.id || d.clusterId;
  }

  async _loadData() {
    try {
      this.clusterId = await this._resolveClusterId();
      const [overview, stats, vars] = await Promise.all([
        this._api(`.../deployments/overview`), this._api(`.../resource-stats`),
        this._api(`.../variable-counts`) ]);
      this.overview      = overview;
      this.env           = overview && overview.cluster ? overview.cluster : null;
      this.resourceStats = stats;
      this.varCounts     = vars;
      this.isLoading     = false;
      this._renderAll();
      this._loadSecondary();
      this._maybeStartRefresh();
    } catch (err) {
      this.isLoading = false;
      this.error     = err.message;
      this._renderAll();
    }
  }
  \<close>
  When \<^verbatim>\<open>this.clusterId\<close> is set, the first \<^verbatim>\<open>await\<close> is on a promise that is already
  resolved: the method goes on, with the same id, before any other event is handled,
  and every caller calls it last; so \<open>loadData\<close> then runs straight to the second
  \<^verbatim>\<open>await\<close>. Otherwise the resolution request is sent and the call is suspended at
  the first \<^verbatim>\<open>await\<close>. \<open>resolveClusterId_resume\<close> is what \<open>_resolveClusterId\<close> returns or
  throws once its request has settled; reading a field of a \<^verbatim>\<open>null\<close> body throws.
\<close>

definition resolveClusterId_resume :: "idinfo fetch_outcome \<Rightarrow> exn + string option" where
  "resolveClusterId_resume out =
     (case out of
        Rejected e \<Rightarrow> Inl e
      | Resolved r \<Rightarrow>
          if \<not> ok r then Inl (Error ''Could not resolve cluster ID from name'')
          else (case json r of
                  Inl e \<Rightarrow> Inl e
                | Inr None \<Rightarrow> Inl (TypeError ''Cannot read properties of null'')
                | Inr (Some d) \<Rightarrow> Inr (or_else (info_id d) (info_clusterId d))))"

definition loadData_catch :: "exn \<Rightarrow> widget \<Rightarrow> widget" where
  "loadData_catch err w = renderAll (w\<lparr>isLoading := False, error := Some (message err)\<rparr>)"

definition loadData_critical :: "widget \<Rightarrow> widget" where
  "loadData_critical w =
     suspend LoadData_critical
       (send (VariableCountsReq (clusterId w))
          (send (ResourceStatsReq (clusterId w))
             (send (OverviewReq (clusterId w)) w)))"

definition loadData :: "widget \<Rightarrow> widget" where
  "loadData w =
     (if truthy (clusterId w) then loadData_critical w
      else suspend LoadData_resolve (send (InfoReq (stackName w) (clusterName w)) w))"

definition loadData_resolve_resume :: "idinfo fetch_outcome \<Rightarrow> widget \<Rightarrow> widget" where
  "loadData_resolve_resume out w =
     (case resolveClusterId_resume out of
        Inl err \<Rightarrow> loadData_catch err w
      | Inr cid \<Rightarrow> loadData_critical (w\<lparr>clusterId := cid\<rparr>))"

definition loadData_critical_resume ::
    "overview_t fetch_outcome \<Rightarrow> payload fetch_outcome \<Rightarrow> varCounts_t fetch_outcome \<Rightarrow>
     widget \<Rightarrow> widget" where
  "loadData_critical_resume out_overview out_stats out_vars w =
     (case api out_overview of
        Inl err \<Rightarrow> loadData_catch err w
      | Inr ov \<Rightarrow>
          (case api out_stats of
             Inl err \<Rightarrow> loadData_catch err w
           | Inr stats \<Rightarrow>
               (case api out_vars of
                  Inl err \<Rightarrow> loadData_catch err w
                | Inr vars \<Rightarrow>
                    maybeStartRefresh
                      (loadSecondary
                         (renderAll
                            (w\<lparr>overview := ov,
                               env := (case ov of None \<Rightarrow> None | Some data \<Rightarrow> cluster data),
                               resourceStats := stats, varCounts := vars,
                               isLoading := False\<rparr>))))))"

subsection \<open>Tabs, reload, picker, connection\<close>

text \<open>
  \<^verbatim>\<open>
  _switchTab(tab) {
    this.activeTab = tab;
    ... the tab buttons are marked ...
    this._renderTabContent(tab);
    this._loadTabData(tab);
  }
  _hardRefresh() {
    this.overview = null; this.env = null; this.resourceStats = null;
    this.varCounts = null; this.deployments = null; this.resources = null;
    this.ingresses = null; this.schedule = null; this.maintenanceWin = null;
    this.isLoading = true;
    const lo = ...; if (lo) lo.style.display = 'flex';
    this._loadData();
  }
  \<close>
\<close>

definition switchTab :: "string \<Rightarrow> widget \<Rightarrow> widget" where
  "switchTab tab w = loadTabData tab (renderTabContent tab (w\<lparr>activeTab := tab\<rparr>))"

definition reset_data :: "widget \<Rightarrow> widget" where
  "reset_data w =
     w\<lparr>overview := None, env := None, resourceStats := None, varCounts := None,
       deployments := None, resources := None, ingresses := None, schedule := None,
       maintenanceWin := None, isLoading := True\<rparr>"

definition hardRefresh :: "widget \<Rightarrow> widget" where
  "hardRefresh w =
     (let w1 = reset_data w
      in loadData (w1\<lparr>shadowRoot := (shadowRoot w1)\<lparr>loading_overlay := True\<rparr>\<rparr>))"

text \<open>
  The picker: \<open>_showPicker\<close> empties the sections, writes the picker and asks for the
  projects; choosing a project asks for its environments; the two answers only fill
  the two lists of the picker. The button of the picker (its listener is in
  \<open>_attachPickerListeners\<close>) takes the value \<open>cid\<close> of the chosen environment, does
  nothing when it is empty, and otherwise sets \<^verbatim>\<open>this.clusterId\<close>, resets the data as
  \<open>_hardRefresh\<close> does, empties the panel and calls \<open>_loadData\<close>.
\<close>

definition showPicker :: "widget \<Rightarrow> widget" where
  "showPicker w =
     suspend LoadPickerProjects
       (send StacksReq
          (w\<lparr>shadowRoot := \<lparr>loading_overlay = False, header_section = NoHeader,
                      banners_section = False, cards_section = False, tabs_nav = False,
                      tab_content = Picker\<rparr>\<rparr>))"

definition picker_change :: "string \<Rightarrow> widget \<Rightarrow> widget" where
  "picker_change project w =
     (if project \<noteq> []
      then suspend LoadPickerEnvironments (send (ClustersOverviewReq project) w)
      else w)"

definition picker_go :: "string \<Rightarrow> widget \<Rightarrow> widget" where
  "picker_go cid w =
     (if cid = [] then w
      else (let w1 = reset_data (w\<lparr>clusterId := Some cid\<rparr>)
            in loadData
                 (w1\<lparr>shadowRoot := (shadowRoot w1)\<lparr>tab_content := NoPanel, loading_overlay := True\<rparr>\<rparr>)))"

text \<open>
  \<^verbatim>\<open>
  connectedCallback() {
    this.clusterId   = this.getAttribute('cluster-id');
    this.stackName   = this.getAttribute('stack-name');
    this.clusterName = this.getAttribute('cluster-name');
    if (this.clusterId || (this.stackName && this.clusterName)) { this._loadData(); return; }
    var ctx = this._tryUrlContext();
    if (ctx.clusterId) { this.clusterId = ctx.clusterId; this._loadData(); return; }
    if (ctx.stackName && ctx.clusterName) {
      this.stackName = ctx.stackName; this.clusterName = ctx.clusterName;
      this._loadData(); return;
    }
    this._showPicker();
  }
  \<close>
\<close>

record attributes =
  cluster_id :: "string option"
  stack_name :: "string option"
  cluster_name :: "string option"

definition connectedCallback :: "attributes \<Rightarrow> location \<Rightarrow> widget \<Rightarrow> widget" where
  "connectedCallback attrs loc w =
     (let w1 = w\<lparr>clusterId := cluster_id attrs, stackName := stack_name attrs,
                  clusterName := cluster_name attrs\<rparr>
      in if truthy (clusterId w1) \<or> (truthy (stackName w1) \<and> truthy (clusterName w1))
         then loadData w1
         else (let ctx = tryUrlContext loc
               in if truthy (ctx_clusterId ctx)
                  then loadData (w1\<lparr>clusterId := ctx_clusterId ctx\<rparr>)
                  else if truthy (ctx_stackName ctx) \<and> truthy (ctx_clusterName ctx)
                  then loadData (w1\<lparr>stackName := ctx_stackName ctx,
                                    clusterName := ctx_clusterName ctx\<rparr>)
                  else showPicker w1))"

subsection \<open>Events\<close>

text \<open>
  The widget runs on one thread: between two events nothing of it runs, and an event
  runs to its end. The events of one attachment of the widget to a page are: a request
  of a suspended call settles (for the calls that wait on several requests, all of
  them have settled) with the given outcomes; a running timer fires; a tab button or
  the refresh button, which exist once \<open>_renderTabsNav\<close> has run, is clicked; a project
  is chosen in the picker or its button is clicked, while the picker is shown.
  \<open>step\<close> gives the widget after an event, and \<open>None\<close> for an event that cannot
  happen in the state.
\<close>

datatype event =
    Resolve_settled "idinfo fetch_outcome"
  | Critical_settled "overview_t fetch_outcome" "payload fetch_outcome"
      "varCounts_t fetch_outcome"
  | Secondary_settled "cost fetch_outcome"
  | Releases_settled "payload fetch_outcome"
  | Resources_settled bool "payload fetch_outcome" "payload fetch_outcome"
  | Schedule_settled "payload fetch_outcome" "payload fetch_outcome"
  | Refresh_settled "overview_t fetch_outcome"
  | Projects_settled "payload fetch_outcome"
  | Environments_settled "payload fetch_outcome"
  | Timer_fires nat
  | Click_tab string
  | Click_refresh
  | Picker_change string
  | Picker_go string

definition tab_ids :: "string list" where
  "tab_ids = [''overview'', ''releases'', ''resources'', ''config'', ''schedule'']"

definition resume :: "suspended \<Rightarrow> (widget \<Rightarrow> widget) \<Rightarrow> widget \<Rightarrow> widget option" where
  "resume c rest w =
     (if c \<in> set (suspended w)
      then Some (rest (w\<lparr>suspended := remove1 c (suspended w)\<rparr>))
      else None)"

fun step :: "widget \<Rightarrow> event \<Rightarrow> widget option" where
  "step w (Resolve_settled out) = resume LoadData_resolve (loadData_resolve_resume out) w"
| "step w (Critical_settled out_overview out_stats out_vars) =
     resume LoadData_critical (loadData_critical_resume out_overview out_stats out_vars) w"
| "step w (Secondary_settled out) = resume LoadSecondary (loadSecondary_resume out) w"
| "step w (Releases_settled out) =
     resume LoadTabData_releases (loadTabData_releases_resume out) w"
| "step w (Resources_settled kube out_res out_ing) =
     resume (LoadTabData_resources kube) (loadTabData_resources_resume kube out_res out_ing) w"
| "step w (Schedule_settled out_sched out_mw) =
     resume LoadTabData_schedule (loadTabData_schedule_resume out_sched out_mw) w"
| "step w (Refresh_settled out) = resume RefreshOverview (refreshOverview_resume out) w"
| "step w (Projects_settled out) = resume LoadPickerProjects (\<lambda>w. w) w"
| "step w (Environments_settled out) = resume LoadPickerEnvironments (\<lambda>w. w) w"
| "step w (Timer_fires h) =
     (if h \<in> fst ` set (timers w) then Some (refreshOverview w) else None)"
| "step w (Click_tab tab) =
     (if tabs_nav (shadowRoot w) \<and> tab \<in> set tab_ids then Some (switchTab tab w) else None)"
| "step w Click_refresh = (if tabs_nav (shadowRoot w) then Some (hardRefresh w) else None)"
| "step w (Picker_change project) =
     (if tab_content (shadowRoot w) = Picker then Some (picker_change project w) else None)"
| "step w (Picker_go cid) =
     (if tab_content (shadowRoot w) = Picker then Some (picker_go cid w) else None)"

fun run :: "widget \<Rightarrow> event list \<Rightarrow> widget option" where
  "run w [] = Some w"
| "run w (e # es) = (case step w e of None \<Rightarrow> None | Some w' \<Rightarrow> run w' es)"

subsection \<open>Example inputs\<close>

text \<open>
  A legacy environment that was never launched, with an account, two variables and no
  orchestration platform.
\<close>

definition legacy_env :: cluster_t where
  "legacy_env =
     no_fields\<lparr>clusterState := Some ''STOPPED'', cloudAccountId := Some ''acct-1'',
       configured := Some True\<rparr>"

definition legacy_widget :: widget where
  "legacy_widget =
     constructor\<lparr>env := Some legacy_env,
       varCounts := Some \<lparr>variableCount = Some 2, secretCount = None\<rparr>\<rparr>"

text \<open>Three locations: the two scenarios of the specification, and an encoded path.\<close>

definition scenario_query :: location where
  "scenario_query = \<lparr>pathname = ''/somewhere'', hash = [], search = ''?clusterId=abc123''\<rparr>"

definition scenario_path :: location where
  "scenario_path = \<lparr>pathname = ''/projects/Acme/environments/prod-1'', hash = [], search = []\<rparr>"

definition scenario_encoded :: location where
  "scenario_encoded =
     \<lparr>pathname = ''/ui/projects/My%20Co/environments/prod%2D1/releases'', hash = ''#top'',
      search = ''?cluster-id=&tab=1''\<rparr>"

text \<open>A string that is empty or begins with \<^verbatim>\<open>#\<close> or \<^verbatim>\<open>?\<close>.\<close>

definition stops :: "string \<Rightarrow> bool" where
  "stops rest = (rest = [] \<or> hd rest = CHR ''#'' \<or> hd rest = CHR ''?'')"

subsection \<open>Notions of the specification\<close>

text \<open>
  The specification's \<open>pollingActive\<close>: the overview has a deployment in progress, or
  the cluster state is one of launching, destroying, scaling up and scaling down. The
  cluster state is that of \<^verbatim>\<open>this.env\<close>, where both methods of the widget read it.
\<close>

definition pollingActive :: "widget \<Rightarrow> bool" where
  "pollingActive w =
     ((case overview w of None \<Rightarrow> False | Some ov \<Rightarrow> has_in_progress ov) \<or>
      is_active (case env w of None \<Rightarrow> None | Some e \<Rightarrow> clusterState e))"

text \<open>
  The specification's state \<open>Failed\<close>: the widget has recorded an error message. What
  the page then shows is \<open>boot_error_only\<close>: the message in the header, and nothing in
  any other section.
\<close>

definition Failed :: "widget \<Rightarrow> bool" where
  "Failed w = (error w \<noteq> None)"






subsection \<open>Example sessions\<close>

text \<open>Outcomes of a request: an answer with a body, and a transport failure.\<close>

definition answers :: "'a \<Rightarrow> 'a fetch_outcome" where
  "answers d = Resolved \<lparr>ok = True, json = Inr (Some d)\<rparr>"

definition fails :: "'a fetch_outcome" where
  "fails = Rejected (TypeError ''Failed to fetch'')"

text \<open>An overview in a given cluster state, with no deployment in progress.\<close>

definition overview_in :: "string \<Rightarrow> overview_t" where
  "overview_in st =
     \<lparr>cluster = Some (no_fields\<lparr>clusterState := Some st\<rparr>), inProgressDeployments = Some [],
      deploymentsStats = None\<rparr>"

text \<open>The widget connected with the attribute \<^verbatim>\<open>cluster-id\<close>, and with the two names.\<close>

definition by_id :: widget where
  "by_id =
     connectedCallback \<lparr>cluster_id = Some ''c1'', stack_name = None, cluster_name = None\<rparr>
       scenario_path constructor"

definition by_name :: widget where
  "by_name =
     connectedCallback
       \<lparr>cluster_id = None, stack_name = Some ''Acme'', cluster_name = Some ''prod-1''\<rparr>
       scenario_path constructor"

text \<open>
  The releases tab is opened and its data arrives; then the refresh button is clicked
  and the three critical requests of the reload are answered.
\<close>

definition reload_on_releases :: "event list" where
  "reload_on_releases =
     [Critical_settled (answers (overview_in ''RUNNING'')) (answers ''{}'') fails,
      Click_tab ''releases'',
      Releases_settled (answers ''[]''),
      Click_refresh,
      Critical_settled (answers (overview_in ''RUNNING'')) (answers ''{}'') fails]"

text \<open>The releases tab is clicked twice before its data arrives.\<close>

definition double_selection :: "event list" where
  "double_selection =
     [Critical_settled (answers (overview_in ''RUNNING'')) (answers ''{}'') fails,
      Click_tab ''releases'',
      Click_tab ''releases'']"



text \<open>
  The environment is launching and the timer fires; while the request of that tick is
  on its way the refresh button is clicked, and the reload finds the environment
  running; then the answer of the tick arrives, from before the reload.
\<close>

definition reload_during_tick :: "event list" where
  "reload_during_tick =
     [Critical_settled (answers (overview_in ''LAUNCHING'')) (answers ''{}'') fails,
      Timer_fires 1,
      Click_refresh,
      Critical_settled (answers (overview_in ''RUNNING'')) (answers ''{}'') fails]"

definition stale_answer :: "event list" where
  "stale_answer = reload_during_tick @ [Refresh_settled (answers (overview_in ''LAUNCHING''))]"

text \<open>Observations of the widget after a session.\<close>

definition sent :: "request \<Rightarrow> widget \<Rightarrow> nat" where
  "sent r w = count_list (requests w) r"

definition awaited :: "suspended \<Rightarrow> widget \<Rightarrow> nat" where
  "awaited c w = count_list (suspended w) c"

text \<open>
  The widget connected by id, once its critical requests are answered: with the
  environment running, and with the environment launching.
\<close>

definition loaded :: widget where
  "loaded =
     loadData_critical_resume (answers (overview_in ''RUNNING'')) (answers ''{}'') fails
       (by_id\<lparr>suspended := []\<rparr>)"

definition launching :: widget where
  "launching =
     loadData_critical_resume (answers (overview_in ''LAUNCHING'')) (answers ''{}'') fails
       (by_id\<lparr>suspended := []\<rparr>)"

section \<open>Properties\<close>

subsection \<open>The fetch wrapper\<close>

lemma api_total: "\<exists>v. api out = Inr v"
proof (cases out)
  case (Rejected x)
  then show ?thesis by (simp add: api_def try_catch_def)
next
  case (Resolved r)
  then show ?thesis
    by (cases "json r") (simp_all add: api_def try_catch_def)
qed

text \<open>
  Claim C6. Whatever \<^verbatim>\<open>fetch\<close> does, \<open>_api\<close> returns and never throws: a rejected
  request (a transport failure), a response that is not \<^verbatim>\<open>ok\<close>, and a body that does
  not parse all give \<^verbatim>\<open>null\<close>, and an \<^verbatim>\<open>ok\<close> response whose body parses gives the
  parsed data.
\<close>

theorem api_never_raises:
  "(\<exists>v. api out = Inr v) \<and>
   api (Rejected e) = Inr None \<and>
   api (Resolved \<lparr>ok = False, json = j\<rparr>) = Inr None \<and>
   api (Resolved \<lparr>ok = True, json = Inl e'\<rparr>) = Inr None \<and>
   api (Resolved \<lparr>ok = True, json = Inr d\<rparr>) = Inr d"
  using api_total [of out] by (simp add: api_def try_catch_def)

subsection \<open>The header call-to-action set\<close>





subsection \<open>Deploy health\<close>












subsection \<open>Launch readiness\<close>

lemma list_all_skip:
  "list_all c_ok (filter (\<lambda>c. \<not> c_skip c) (all_checks w e)) = list_all c_ok (all_checks w e)"
  by (auto simp: all_checks_def Let_def)

text \<open>
  Claim C8. For a legacy environment that was never launched, the card holds the
  checks that are not skipped, and its overall result \<open>allOk\<close> is true exactly when
  every check that is not skipped is true. The checks are, in order: configuration,
  cloud account, Kubernetes credentials (skipped when no Kubernetes is detected) and
  variables. Skipping makes no difference to the conjunction: \<open>allOk\<close> is also the
  conjunction over all four.
\<close>

theorem readiness_all_non_skipped:
  assumes "isNeverLaunched w" and "isLegacy (env_or_empty w)"
  shows "\<exists>checks allOk.
           launch_readiness w = Some (Legacy_card checks allOk) \<and>
           checks = filter (\<lambda>c. \<not> c_skip c) (all_checks w (env_or_empty w)) \<and>
           (allOk \<longleftrightarrow> (\<forall>c \<in> set (all_checks w (env_or_empty w)). \<not> c_skip c \<longrightarrow> c_ok c)) \<and>
           (allOk \<longleftrightarrow> (\<forall>c \<in> set (all_checks w (env_or_empty w)). c_ok c)) \<and>
           (allOk \<longleftrightarrow>
              isConfigured (env_or_empty w) \<and> hasCloudAcct (env_or_empty w) \<and>
              (hasKubernetes w \<longrightarrow> hasK8sCredentials (env_or_empty w) = Some True) \<and>
              hasVars w) \<and>
           map c_label (all_checks w (env_or_empty w)) =
             [''Environment configured'', ''Cloud account linked'',
              ''Kubernetes credentials'', ''Variables populated''] \<and>
           map c_skip (all_checks w (env_or_empty w)) =
             [False, False, \<not> hasKubernetes w, False]"
proof -
  let ?e = "env_or_empty w"
  let ?checks = "filter (\<lambda>c. \<not> c_skip c) (all_checks w ?e)"
  let ?allOk = "list_all c_ok ?checks"
  have r: "launch_readiness w = Some (Legacy_card ?checks ?allOk)"
    using assms by (simp add: launch_readiness_def buildLaunchReadiness_def Let_def)
  have a: "?allOk \<longleftrightarrow> (\<forall>c \<in> set (all_checks w ?e). \<not> c_skip c \<longrightarrow> c_ok c)"
    by (auto simp: list_all_iff)
  have b: "?allOk \<longleftrightarrow> (\<forall>c \<in> set (all_checks w ?e). c_ok c)"
    by (simp only: list_all_skip) (simp add: list_all_iff)
  have c: "?allOk \<longleftrightarrow>
              isConfigured ?e \<and> hasCloudAcct ?e \<and>
              (hasKubernetes w \<longrightarrow> hasK8sCredentials ?e = Some True) \<and> hasVars w"
    by (simp only: list_all_skip) (auto simp: all_checks_def Let_def)
  have d: "map c_label (all_checks w ?e) =
             [''Environment configured'', ''Cloud account linked'',
              ''Kubernetes credentials'', ''Variables populated''] \<and>
           map c_skip (all_checks w ?e) = [False, False, \<not> hasKubernetes w, False]"
    by (simp add: all_checks_def Let_def)
  show ?thesis
  proof (intro exI conjI)
    show "launch_readiness w = Some (Legacy_card ?checks ?allOk)" by (rule r)
    show "?checks = ?checks" by (rule refl)
    show "?allOk \<longleftrightarrow> (\<forall>c \<in> set (all_checks w ?e). \<not> c_skip c \<longrightarrow> c_ok c)" by (rule a)
    show "?allOk \<longleftrightarrow> (\<forall>c \<in> set (all_checks w ?e). c_ok c)" by (rule b)
    show "?allOk \<longleftrightarrow>
              isConfigured ?e \<and> hasCloudAcct ?e \<and>
              (hasKubernetes w \<longrightarrow> hasK8sCredentials ?e = Some True) \<and> hasVars w" by (rule c)
    show "map c_label (all_checks w ?e) =
             [''Environment configured'', ''Cloud account linked'',
              ''Kubernetes credentials'', ''Variables populated'']" by (rule d [THEN conjunct1])
    show "map c_skip (all_checks w ?e) = [False, False, \<not> hasKubernetes w, False]"
      by (rule d [THEN conjunct2])
  qed
qed

lemma legacy_widget_never_launched: "isNeverLaunched legacy_widget"
  by (simp add: isNeverLaunched_def legacy_widget_def legacy_env_def env_or_empty_def
      no_fields_def or_else_def constructor_def)

lemma legacy_widget_legacy: "isLegacy (env_or_empty legacy_widget)"
  by (simp add: isLegacy_def legacy_widget_def legacy_env_def env_or_empty_def no_fields_def)

lemma legacy_widget_vars: "hasVars legacy_widget"
  by code_simp

lemma legacy_widget_no_k8s: "\<not> hasKubernetes legacy_widget"
  by (simp add: hasKubernetes_def legacy_widget_def legacy_env_def no_fields_def)

theorem readiness_all_non_skipped_witness:
  "isNeverLaunched legacy_widget \<and> isLegacy (env_or_empty legacy_widget) \<and>
   launch_readiness legacy_widget =
     Some (Legacy_card
       (filter (\<lambda>c. \<not> c_skip c) (all_checks legacy_widget (env_or_empty legacy_widget))) True) \<and>
   length (filter (\<lambda>c. \<not> c_skip c) (all_checks legacy_widget (env_or_empty legacy_widget))) = 3"
  using readiness_all_non_skipped [OF legacy_widget_never_launched legacy_widget_legacy]
    legacy_widget_never_launched legacy_widget_legacy legacy_widget_vars legacy_widget_no_k8s
  by (auto simp: isConfigured_def hasCloudAcct_def legacy_widget_def legacy_env_def
      env_or_empty_def no_fields_def all_checks_def Let_def)

subsection \<open>The context resolver\<close>

lemma startsWith_append:
  assumes "stops rest" and "CHR ''#'' \<notin> set t" and "CHR ''?'' \<notin> set t"
  shows "startsWith (u @ rest) t = startsWith u t"
proof (cases "length t \<le> length u")
  case True
  then show ?thesis by (simp add: startsWith_def)
next
  case False
  then have short: "length u < length t" by simp
  have "\<not> startsWith u t"
    using short by (auto simp: startsWith_def)
  moreover have "\<not> startsWith (u @ rest) t"
  proof
    assume "startsWith (u @ rest) t"
    then have eq: "t = u @ take (length t - length u) rest"
      using short by (simp add: startsWith_def)
    show False
    proof (cases rest)
      case Nil
      with eq short show False by simp
    next
      case (Cons r rs)
      with assms(1) have r: "r = CHR ''#'' \<or> r = CHR ''?''"
        by (simp add: stops_def)
      from short obtain k where k: "length t - length u = Suc k"
        by (cases "length t - length u") auto
      have "r \<in> set t"
        by (subst eq) (simp add: Cons k)
      with r assms(2,3) show False by auto
    qed
  qed
  ultimately show ?thesis by simp
qed

lemma takeWhile_segment_append:
  assumes "stops rest"
  shows "takeWhile segment_char (v @ rest) = takeWhile segment_char v"
proof -
  have "takeWhile segment_char rest = []"
    using assms by (cases rest) (auto simp: stops_def segment_char_def)
  then show ?thesis
    by (induction v) simp_all
qed

lemma dropWhile_segment_append:
  assumes "stops rest"
  shows "dropWhile segment_char (v @ rest) = dropWhile segment_char v @ rest"
proof -
  have "dropWhile segment_char rest = rest"
    using assms by (cases rest) (auto simp: stops_def segment_char_def)
  then show ?thesis
    by (simp add: dropWhile_append)
qed

lemma match_here_append:
  assumes "stops rest"
  shows "match_here (u @ rest) = match_here u"
proof -
  have p: "startsWith (u @ rest) ''/projects/'' = startsWith u ''/projects/''" for u
    using assms by (intro startsWith_append) simp_all
  have e: "startsWith (u @ rest) ''/environments/'' = startsWith u ''/environments/''" for u
    using assms by (intro startsWith_append) simp_all
  show ?thesis
  proof (cases "startsWith u ''/projects/''")
    case False
    then show ?thesis by (simp add: match_here_def p)
  next
    case True
    then have len: "10 \<le> length u"
      by (auto simp: startsWith_def dest: arg_cong [where f = length])
    let ?s1 = "drop 10 u"
    have d1: "drop 10 (u @ rest) = ?s1 @ rest"
      using len by simp
    show ?thesis
    proof (cases "startsWith (dropWhile segment_char ?s1) ''/environments/''")
      case False
      then show ?thesis
        using True by (simp add: match_here_def p d1 Let_def
            takeWhile_segment_append [OF assms] dropWhile_segment_append [OF assms] e
            del: drop_append)
    next
      case True2: True
      then have len2: "14 \<le> length (dropWhile segment_char ?s1)"
        by (auto simp: startsWith_def dest: arg_cong [where f = length])
      have d2: "drop 14 (dropWhile segment_char ?s1 @ rest) = drop 14 (dropWhile segment_char ?s1) @ rest"
        using len2 by simp
      show ?thesis
        using True True2 by (simp add: match_here_def p d1 Let_def
            takeWhile_segment_append [OF assms] dropWhile_segment_append [OF assms] e d2
            del: drop_append)
    qed
  qed
qed

lemma match_append:
  assumes "stops rest"
  shows "match (u @ rest) = (case match u of Some m \<Rightarrow> Some m | None \<Rightarrow> match rest)"
proof (induction u)
  case Nil
  show ?case by (simp add: match_here_def startsWith_def)
next
  case (Cons c cs)
  have "match_here (c # cs @ rest) = match_here (c # cs)"
    using match_here_append [OF assms, of "c # cs"] by simp
  with Cons show ?case
    by (simp split: option.splits)
qed

lemma stops_location:
  "wf_location loc \<Longrightarrow> stops (hash loc @ search loc)"
  by (cases "hash loc") (auto simp: wf_location_def stops_def)

lemma match_full:
  assumes "wf_location loc" and "match (pathname loc) = Some m"
  shows "match (pathname loc @ hash loc @ search loc) = Some m"
  using match_append [OF stops_location [OF assms(1)], of "pathname loc"] assms(2) by simp

lemma tryUrlContext_clusterId:
  assumes "truthy (get (URLSearchParams (search loc)) ''clusterId'')"
  shows "tryUrlContext loc =
           \<lparr>ctx_clusterId = get (URLSearchParams (search loc)) ''clusterId'',
            ctx_stackName = None, ctx_clusterName = None\<rparr>"
  using assms by (simp add: tryUrlContext_def Let_def)

lemma tryUrlContext_cluster_id:
  assumes "\<not> truthy (get (URLSearchParams (search loc)) ''clusterId'')"
    and "truthy (get (URLSearchParams (search loc)) ''cluster-id'')"
  shows "tryUrlContext loc =
           \<lparr>ctx_clusterId = get (URLSearchParams (search loc)) ''cluster-id'',
            ctx_stackName = None, ctx_clusterName = None\<rparr>"
  using assms by (simp add: tryUrlContext_def Let_def)

lemma tryUrlContext_path:
  assumes "wf_location loc"
    and "\<not> truthy (get (URLSearchParams (search loc)) ''clusterId'')"
    and "\<not> truthy (get (URLSearchParams (search loc)) ''cluster-id'')"
    and "match (pathname loc) = Some (a, b)"
    and "decodeURIComponent a = Inr sn" and "decodeURIComponent b = Inr cn"
  shows "tryUrlContext loc =
           \<lparr>ctx_clusterId = None, ctx_stackName = Some sn, ctx_clusterName = Some cn\<rparr>"
  using assms(2,3,5,6) match_full [OF assms(1,4)]
  by (simp add: tryUrlContext_def Let_def decode_groups_def)

lemma scenario_query_result:
  "tryUrlContext scenario_query =
     \<lparr>ctx_clusterId = Some ''abc123'', ctx_stackName = None, ctx_clusterName = None\<rparr>"
  by code_simp

lemma scenario_path_result:
  "tryUrlContext scenario_path =
     \<lparr>ctx_clusterId = None, ctx_stackName = Some ''Acme'', ctx_clusterName = Some ''prod-1''\<rparr>"
  by code_simp

text \<open>
  Claim C9. The resolver takes the first source that answers. A query parameter
  \<^verbatim>\<open>clusterId\<close> with a value gives that value as the cluster id, whatever the path and
  the fragment are; failing that, a parameter \<^verbatim>\<open>cluster-id\<close> with a value does the
  same. Failing both, when the pattern \<^verbatim>\<open>/projects/{stack}/environments/{cluster}\<close>
  occurs in the path and its two segments decode, the result is the decoded pair.
  The two scenarios of the specification follow.
\<close>

theorem tryUrlContext_first_match_wins:
  "(truthy (get (URLSearchParams (search loc)) ''clusterId'') \<longrightarrow>
      (\<forall>p h. tryUrlContext (loc\<lparr>pathname := p, hash := h\<rparr>) =
         \<lparr>ctx_clusterId = get (URLSearchParams (search loc)) ''clusterId'',
          ctx_stackName = None, ctx_clusterName = None\<rparr>)) \<and>
   (\<not> truthy (get (URLSearchParams (search loc)) ''clusterId'') \<and>
    truthy (get (URLSearchParams (search loc)) ''cluster-id'') \<longrightarrow>
      (\<forall>p h. tryUrlContext (loc\<lparr>pathname := p, hash := h\<rparr>) =
         \<lparr>ctx_clusterId = get (URLSearchParams (search loc)) ''cluster-id'',
          ctx_stackName = None, ctx_clusterName = None\<rparr>)) \<and>
   (wf_location loc \<and>
    \<not> truthy (get (URLSearchParams (search loc)) ''clusterId'') \<and>
    \<not> truthy (get (URLSearchParams (search loc)) ''cluster-id'') \<and>
    match (pathname loc) = Some (a, b) \<and>
    decodeURIComponent a = Inr sn \<and> decodeURIComponent b = Inr cn \<longrightarrow>
      tryUrlContext loc =
        \<lparr>ctx_clusterId = None, ctx_stackName = Some sn, ctx_clusterName = Some cn\<rparr>) \<and>
   tryUrlContext \<lparr>pathname = ''/somewhere'', hash = [], search = ''?clusterId=abc123''\<rparr> =
     \<lparr>ctx_clusterId = Some ''abc123'', ctx_stackName = None, ctx_clusterName = None\<rparr> \<and>
   tryUrlContext \<lparr>pathname = ''/projects/Acme/environments/prod-1'', hash = [], search = []\<rparr> =
     \<lparr>ctx_clusterId = None, ctx_stackName = Some ''Acme'', ctx_clusterName = Some ''prod-1''\<rparr>"
proof (intro conjI impI allI)
  fix p h
  assume "truthy (get (URLSearchParams (search loc)) ''clusterId'')"
  then show "tryUrlContext (loc\<lparr>pathname := p, hash := h\<rparr>) =
         \<lparr>ctx_clusterId = get (URLSearchParams (search loc)) ''clusterId'',
          ctx_stackName = None, ctx_clusterName = None\<rparr>"
    using tryUrlContext_clusterId [of "loc\<lparr>pathname := p, hash := h\<rparr>"] by simp
next
  fix p h
  assume "\<not> truthy (get (URLSearchParams (search loc)) ''clusterId'') \<and>
    truthy (get (URLSearchParams (search loc)) ''cluster-id'')"
  then show "tryUrlContext (loc\<lparr>pathname := p, hash := h\<rparr>) =
         \<lparr>ctx_clusterId = get (URLSearchParams (search loc)) ''cluster-id'',
          ctx_stackName = None, ctx_clusterName = None\<rparr>"
    using tryUrlContext_cluster_id [of "loc\<lparr>pathname := p, hash := h\<rparr>"] by simp
next
  assume "wf_location loc \<and>
    \<not> truthy (get (URLSearchParams (search loc)) ''clusterId'') \<and>
    \<not> truthy (get (URLSearchParams (search loc)) ''cluster-id'') \<and>
    match (pathname loc) = Some (a, b) \<and>
    decodeURIComponent a = Inr sn \<and> decodeURIComponent b = Inr cn"
  then show "tryUrlContext loc =
        \<lparr>ctx_clusterId = None, ctx_stackName = Some sn, ctx_clusterName = Some cn\<rparr>"
    using tryUrlContext_path by blast
next
  show "tryUrlContext \<lparr>pathname = ''/somewhere'', hash = [], search = ''?clusterId=abc123''\<rparr> =
     \<lparr>ctx_clusterId = Some ''abc123'', ctx_stackName = None, ctx_clusterName = None\<rparr>"
    using scenario_query_result by (simp add: scenario_query_def)
next
  show "tryUrlContext \<lparr>pathname = ''/projects/Acme/environments/prod-1'', hash = [], search = []\<rparr> =
     \<lparr>ctx_clusterId = None, ctx_stackName = Some ''Acme'', ctx_clusterName = Some ''prod-1''\<rparr>"
    using scenario_path_result by (simp add: scenario_path_def)
qed

lemma scenario_encoded_wf: "wf_location scenario_encoded" by (simp add: wf_location_def scenario_encoded_def)
lemma scenario_encoded_clusterId: "get (URLSearchParams (search scenario_encoded)) ''clusterId'' = None" by code_simp
lemma scenario_encoded_cluster_id: "get (URLSearchParams (search scenario_encoded)) ''cluster-id'' = Some []" by code_simp
lemma scenario_encoded_match: "match (pathname scenario_encoded) = Some (''My%20Co'', ''prod%2D1'')" by code_simp
lemma decode_stack_example: "decodeURIComponent ''My%20Co'' = Inr ''My Co''" by code_simp
lemma decode_cluster_example: "decodeURIComponent ''prod%2D1'' = Inr ''prod-1''" by code_simp
lemma scenario_query_clusterId: "get (URLSearchParams (search scenario_query)) ''clusterId'' = Some ''abc123''" by code_simp

theorem tryUrlContext_first_match_wins_witness:
  "truthy (get (URLSearchParams (search scenario_query)) ''clusterId'') \<and>
   tryUrlContext (scenario_query\<lparr>pathname := ''/projects/Acme/environments/prod-1'', hash := []\<rparr>) =
     \<lparr>ctx_clusterId = Some ''abc123'', ctx_stackName = None, ctx_clusterName = None\<rparr> \<and>
   wf_location scenario_encoded \<and>
   \<not> truthy (get (URLSearchParams (search scenario_encoded)) ''clusterId'') \<and>
   \<not> truthy (get (URLSearchParams (search scenario_encoded)) ''cluster-id'') \<and>
   match (pathname scenario_encoded) = Some (''My%20Co'', ''prod%2D1'') \<and>
   tryUrlContext scenario_encoded =
     \<lparr>ctx_clusterId = None, ctx_stackName = Some ''My Co'', ctx_clusterName = Some ''prod-1''\<rparr>"
  using tryUrlContext_first_match_wins [of scenario_query]
    tryUrlContext_first_match_wins [of scenario_encoded "''My%20Co''" "''prod%2D1''" "''My Co''" "''prod-1''"]
    scenario_encoded_wf scenario_encoded_clusterId scenario_encoded_cluster_id
    scenario_encoded_match decode_stack_example decode_cluster_example scenario_query_clusterId
  by simp

subsection \<open>What each method leaves as it is\<close>

lemma send_fields [simp]:
  "requests (send r w) = requests w @ [r]"
  "suspended (send r w) = suspended w"
  "timers (send r w) = timers w"
  "shadowRoot (send r w) = shadowRoot w"
  "error (send r w) = error w"
  "clusterId (send r w) = clusterId w"
  "overview (send r w) = overview w"
  "env (send r w) = env w"
  "refreshTimer (send r w) = refreshTimer w"
  "next_timer (send r w) = next_timer w"
  "activeTab (send r w) = activeTab w"
  "deployments (send r w) = deployments w"
  "resources (send r w) = resources w"
  "schedule (send r w) = schedule w"
  "isLoading (send r w) = isLoading w"
  by (simp_all add: send_def)

lemma suspend_fields [simp]:
  "requests (suspend c w) = requests w"
  "suspended (suspend c w) = suspended w @ [c]"
  "timers (suspend c w) = timers w"
  "shadowRoot (suspend c w) = shadowRoot w"
  "error (suspend c w) = error w"
  "clusterId (suspend c w) = clusterId w"
  "overview (suspend c w) = overview w"
  "env (suspend c w) = env w"
  "refreshTimer (suspend c w) = refreshTimer w"
  "next_timer (suspend c w) = next_timer w"
  "activeTab (suspend c w) = activeTab w"
  "deployments (suspend c w) = deployments w"
  "resources (suspend c w) = resources w"
  "schedule (suspend c w) = schedule w"
  "isLoading (suspend c w) = isLoading w"
  by (simp_all add: suspend_def)

lemma renderTabContent_fields [simp]:
  "requests (renderTabContent tab w) = requests w"
  "suspended (renderTabContent tab w) = suspended w"
  "timers (renderTabContent tab w) = timers w"
  "error (renderTabContent tab w) = error w"
  "clusterId (renderTabContent tab w) = clusterId w"
  "overview (renderTabContent tab w) = overview w"
  "env (renderTabContent tab w) = env w"
  "refreshTimer (renderTabContent tab w) = refreshTimer w"
  "next_timer (renderTabContent tab w) = next_timer w"
  "activeTab (renderTabContent tab w) = activeTab w"
  "deployments (renderTabContent tab w) = deployments w"
  "resources (renderTabContent tab w) = resources w"
  "schedule (renderTabContent tab w) = schedule w"
  "isLoading (renderTabContent tab w) = isLoading w"
  "tabs_nav (shadowRoot (renderTabContent tab w)) = tabs_nav (shadowRoot w)"
  "header_section (shadowRoot (renderTabContent tab w)) = header_section (shadowRoot w)"
  by (simp_all add: renderTabContent_def)

lemma renderAll_fields [simp]:
  "requests (renderAll w) = requests w"
  "suspended (renderAll w) = suspended w"
  "timers (renderAll w) = timers w"
  "error (renderAll w) = error w"
  "clusterId (renderAll w) = clusterId w"
  "overview (renderAll w) = overview w"
  "env (renderAll w) = env w"
  "refreshTimer (renderAll w) = refreshTimer w"
  "next_timer (renderAll w) = next_timer w"
  "activeTab (renderAll w) = activeTab w"
  "deployments (renderAll w) = deployments w"
  "resources (renderAll w) = resources w"
  "schedule (renderAll w) = schedule w"
  "isLoading (renderAll w) = isLoading w"
  by (simp_all add: renderAll_def Let_def renderHeader_def renderBanners_def renderCards_def
      renderTabsNav_def split: option.splits)

lemma renderAll_dom:
  "error w = None \<Longrightarrow> tabs_nav (shadowRoot (renderAll w))"
  "error w = None \<Longrightarrow>
     shadowRoot (renderAll w) =
       shadowRoot (renderTabContent (activeTab w)
         (w\<lparr>shadowRoot := \<lparr>loading_overlay = False, header_section = Header, banners_section = True,
                    cards_section = True, tabs_nav = True, tab_content = tab_content (shadowRoot w)\<rparr>\<rparr>))"
  "error w = Some msg \<Longrightarrow> msg \<noteq> [] \<Longrightarrow> env w = None \<Longrightarrow>
     shadowRoot (renderAll w) =
       (shadowRoot w)\<lparr>loading_overlay := False,
              header_section := BootError (''Failed to load environment: '' @ msg)\<rparr>"
  by (simp_all add: renderAll_def Let_def renderHeader_def renderBanners_def renderCards_def
      renderTabsNav_def renderTabContent_def)

lemma maybeStartRefresh_fields [simp]:
  "requests (maybeStartRefresh w) = requests w"
  "suspended (maybeStartRefresh w) = suspended w"
  "shadowRoot (maybeStartRefresh w) = shadowRoot w"
  "error (maybeStartRefresh w) = error w"
  "clusterId (maybeStartRefresh w) = clusterId w"
  "overview (maybeStartRefresh w) = overview w"
  "env (maybeStartRefresh w) = env w"
  "activeTab (maybeStartRefresh w) = activeTab w"
  "deployments (maybeStartRefresh w) = deployments w"
  "resources (maybeStartRefresh w) = resources w"
  "schedule (maybeStartRefresh w) = schedule w"
  "isLoading (maybeStartRefresh w) = isLoading w"
  by (simp_all add: maybeStartRefresh_def Let_def setInterval_def clearInterval_def
      split: option.splits)

lemma loadSecondary_fields [simp]:
  "requests (loadSecondary w) = requests w @ [CostEnabledReq]"
  "suspended (loadSecondary w) = suspended w @ [LoadSecondary]"
  "timers (loadSecondary w) = timers w"
  "shadowRoot (loadSecondary w) = shadowRoot w"
  "error (loadSecondary w) = error w"
  "clusterId (loadSecondary w) = clusterId w"
  "overview (loadSecondary w) = overview w"
  "env (loadSecondary w) = env w"
  "refreshTimer (loadSecondary w) = refreshTimer w"
  "next_timer (loadSecondary w) = next_timer w"
  "activeTab (loadSecondary w) = activeTab w"
  "deployments (loadSecondary w) = deployments w"
  "resources (loadSecondary w) = resources w"
  "schedule (loadSecondary w) = schedule w"
  "isLoading (loadSecondary w) = isLoading w"
  by (simp_all add: loadSecondary_def)

lemma loadData_critical_fields [simp]:
  "requests (loadData_critical w) =
     requests w @ [OverviewReq (clusterId w), ResourceStatsReq (clusterId w),
                   VariableCountsReq (clusterId w)]"
  "suspended (loadData_critical w) = suspended w @ [LoadData_critical]"
  "timers (loadData_critical w) = timers w"
  "shadowRoot (loadData_critical w) = shadowRoot w"
  "error (loadData_critical w) = error w"
  "clusterId (loadData_critical w) = clusterId w"
  "overview (loadData_critical w) = overview w"
  "env (loadData_critical w) = env w"
  "refreshTimer (loadData_critical w) = refreshTimer w"
  "next_timer (loadData_critical w) = next_timer w"
  "activeTab (loadData_critical w) = activeTab w"
  "deployments (loadData_critical w) = deployments w"
  "resources (loadData_critical w) = resources w"
  "schedule (loadData_critical w) = schedule w"
  "isLoading (loadData_critical w) = isLoading w"
  by (simp_all add: loadData_critical_def)

lemma loadData_fields [simp]:
  "timers (loadData w) = timers w"
  "shadowRoot (loadData w) = shadowRoot w"
  "error (loadData w) = error w"
  "clusterId (loadData w) = clusterId w"
  "overview (loadData w) = overview w"
  "env (loadData w) = env w"
  "refreshTimer (loadData w) = refreshTimer w"
  "next_timer (loadData w) = next_timer w"
  "activeTab (loadData w) = activeTab w"
  "deployments (loadData w) = deployments w"
  "resources (loadData w) = resources w"
  "schedule (loadData w) = schedule w"
  "isLoading (loadData w) = isLoading w"
  by (simp_all add: loadData_def)

lemma loadData_known_id:
  "truthy (clusterId w) \<Longrightarrow> loadData w = loadData_critical w"
  by (simp add: loadData_def)

lemma reset_data_fields [simp]:
  "requests (reset_data w) = requests w"
  "suspended (reset_data w) = suspended w"
  "timers (reset_data w) = timers w"
  "shadowRoot (reset_data w) = shadowRoot w"
  "error (reset_data w) = error w"
  "clusterId (reset_data w) = clusterId w"
  "overview (reset_data w) = None"
  "env (reset_data w) = None"
  "resourceStats (reset_data w) = None"
  "varCounts (reset_data w) = None"
  "deployments (reset_data w) = None"
  "resources (reset_data w) = None"
  "ingresses (reset_data w) = None"
  "schedule (reset_data w) = None"
  "maintenanceWin (reset_data w) = None"
  "refreshTimer (reset_data w) = refreshTimer w"
  "next_timer (reset_data w) = next_timer w"
  "activeTab (reset_data w) = activeTab w"
  "isLoading (reset_data w) = True"
  by (simp_all add: reset_data_def)

lemma hardRefresh_fields [simp]:
  "timers (hardRefresh w) = timers w"
  "error (hardRefresh w) = error w"
  "clusterId (hardRefresh w) = clusterId w"
  "overview (hardRefresh w) = None"
  "env (hardRefresh w) = None"
  "deployments (hardRefresh w) = None"
  "resources (hardRefresh w) = None"
  "schedule (hardRefresh w) = None"
  "refreshTimer (hardRefresh w) = refreshTimer w"
  "next_timer (hardRefresh w) = next_timer w"
  "activeTab (hardRefresh w) = activeTab w"
  "shadowRoot (hardRefresh w) = (shadowRoot w)\<lparr>loading_overlay := True\<rparr>"
  by (simp_all add: hardRefresh_def Let_def)

lemma hardRefresh_known_id:
  assumes "truthy (clusterId w)"
  shows "suspended (hardRefresh w) = suspended w @ [LoadData_critical]"
    and "requests (hardRefresh w) =
           requests w @ [OverviewReq (clusterId w), ResourceStatsReq (clusterId w),
                         VariableCountsReq (clusterId w)]"
  using assms by (simp_all add: hardRefresh_def Let_def loadData_known_id)

lemma loadTabData_fields [simp]:
  "timers (loadTabData tab w) = timers w"
  "shadowRoot (loadTabData tab w) = shadowRoot w"
  "error (loadTabData tab w) = error w"
  "clusterId (loadTabData tab w) = clusterId w"
  "overview (loadTabData tab w) = overview w"
  "env (loadTabData tab w) = env w"
  "refreshTimer (loadTabData tab w) = refreshTimer w"
  "next_timer (loadTabData tab w) = next_timer w"
  "activeTab (loadTabData tab w) = activeTab w"
  "deployments (loadTabData tab w) = deployments w"
  "resources (loadTabData tab w) = resources w"
  "schedule (loadTabData tab w) = schedule w"
  by (simp_all add: loadTabData_def Let_def)


lemma switchTab_fields [simp]:
  "timers (switchTab tab w) = timers w"
  "error (switchTab tab w) = error w"
  "clusterId (switchTab tab w) = clusterId w"
  "overview (switchTab tab w) = overview w"
  "env (switchTab tab w) = env w"
  "refreshTimer (switchTab tab w) = refreshTimer w"
  "next_timer (switchTab tab w) = next_timer w"
  "activeTab (switchTab tab w) = tab"
  "deployments (switchTab tab w) = deployments w"
  "resources (switchTab tab w) = resources w"
  "schedule (switchTab tab w) = schedule w"
  "tabs_nav (shadowRoot (switchTab tab w)) = tabs_nav (shadowRoot w)"
  by (simp_all add: switchTab_def)


lemma refreshOverview_fields [simp]:
  "requests (refreshOverview w) = requests w @ [OverviewReq (clusterId w)]"
  "suspended (refreshOverview w) = suspended w @ [RefreshOverview]"
  "timers (refreshOverview w) = timers w"
  "shadowRoot (refreshOverview w) = shadowRoot w"
  "error (refreshOverview w) = error w"
  "clusterId (refreshOverview w) = clusterId w"
  "overview (refreshOverview w) = overview w"
  "env (refreshOverview w) = env w"
  "refreshTimer (refreshOverview w) = refreshTimer w"
  "next_timer (refreshOverview w) = next_timer w"
  "activeTab (refreshOverview w) = activeTab w"
  "deployments (refreshOverview w) = deployments w"
  by (simp_all add: refreshOverview_def)

lemma refreshOverview_resume_fields [simp]:
  "requests (refreshOverview_resume out w) = requests w"
  "suspended (refreshOverview_resume out w) = suspended w"
  "error (refreshOverview_resume out w) = error w"
  "clusterId (refreshOverview_resume out w) = clusterId w"
  "next_timer (refreshOverview_resume out w) = next_timer w"
  "activeTab (refreshOverview_resume out w) = activeTab w"
  "deployments (refreshOverview_resume out w) = deployments w"
  "resources (refreshOverview_resume out w) = resources w"
  "schedule (refreshOverview_resume out w) = schedule w"
  "tabs_nav (shadowRoot (refreshOverview_resume out w)) = tabs_nav (shadowRoot w)"
  by (simp_all add: refreshOverview_resume_def Let_def renderHeader_def renderBanners_def
      renderCards_def clearInterval_def split: sum.splits option.splits)

lemma loadSecondary_resume_fields [simp]:
  "requests (loadSecondary_resume out w) = requests w"
  "suspended (loadSecondary_resume out w) = suspended w"
  "timers (loadSecondary_resume out w) = timers w"
  "shadowRoot (loadSecondary_resume out w) = shadowRoot w"
  "error (loadSecondary_resume out w) = error w"
  "clusterId (loadSecondary_resume out w) = clusterId w"
  "overview (loadSecondary_resume out w) = overview w"
  "env (loadSecondary_resume out w) = env w"
  "refreshTimer (loadSecondary_resume out w) = refreshTimer w"
  "next_timer (loadSecondary_resume out w) = next_timer w"
  "activeTab (loadSecondary_resume out w) = activeTab w"
  "deployments (loadSecondary_resume out w) = deployments w"
  by (simp_all add: loadSecondary_resume_def split: sum.splits)

lemma loadTabData_releases_resume_fields [simp]:
  "requests (loadTabData_releases_resume out w) = requests w"
  "suspended (loadTabData_releases_resume out w) = suspended w"
  "timers (loadTabData_releases_resume out w) = timers w"
  "error (loadTabData_releases_resume out w) = error w"
  "clusterId (loadTabData_releases_resume out w) = clusterId w"
  "overview (loadTabData_releases_resume out w) = overview w"
  "env (loadTabData_releases_resume out w) = env w"
  "refreshTimer (loadTabData_releases_resume out w) = refreshTimer w"
  "next_timer (loadTabData_releases_resume out w) = next_timer w"
  "activeTab (loadTabData_releases_resume out w) = activeTab w"
  "tabs_nav (shadowRoot (loadTabData_releases_resume out w)) = tabs_nav (shadowRoot w)"
  by (simp_all add: loadTabData_releases_resume_def Let_def split: sum.splits)

lemma loadTabData_resources_resume_fields [simp]:
  "requests (loadTabData_resources_resume k out out' w) = requests w"
  "suspended (loadTabData_resources_resume k out out' w) = suspended w"
  "timers (loadTabData_resources_resume k out out' w) = timers w"
  "error (loadTabData_resources_resume k out out' w) = error w"
  "clusterId (loadTabData_resources_resume k out out' w) = clusterId w"
  "overview (loadTabData_resources_resume k out out' w) = overview w"
  "env (loadTabData_resources_resume k out out' w) = env w"
  "refreshTimer (loadTabData_resources_resume k out out' w) = refreshTimer w"
  "next_timer (loadTabData_resources_resume k out out' w) = next_timer w"
  "activeTab (loadTabData_resources_resume k out out' w) = activeTab w"
  "tabs_nav (shadowRoot (loadTabData_resources_resume k out out' w)) = tabs_nav (shadowRoot w)"
  by (simp_all add: loadTabData_resources_resume_def Let_def split: sum.splits)

lemma loadTabData_schedule_resume_fields [simp]:
  "requests (loadTabData_schedule_resume out out' w) = requests w"
  "suspended (loadTabData_schedule_resume out out' w) = suspended w"
  "timers (loadTabData_schedule_resume out out' w) = timers w"
  "error (loadTabData_schedule_resume out out' w) = error w"
  "clusterId (loadTabData_schedule_resume out out' w) = clusterId w"
  "overview (loadTabData_schedule_resume out out' w) = overview w"
  "env (loadTabData_schedule_resume out out' w) = env w"
  "refreshTimer (loadTabData_schedule_resume out out' w) = refreshTimer w"
  "next_timer (loadTabData_schedule_resume out out' w) = next_timer w"
  "activeTab (loadTabData_schedule_resume out out' w) = activeTab w"
  "tabs_nav (shadowRoot (loadTabData_schedule_resume out out' w)) = tabs_nav (shadowRoot w)"
  by (simp_all add: loadTabData_schedule_resume_def Let_def split: sum.splits)


lemma picker_go_fields [simp]:
  "timers (picker_go cid w) = timers w"
  "error (picker_go cid w) = error w"
  "tabs_nav (shadowRoot (picker_go cid w)) = tabs_nav (shadowRoot w)"
  "cid \<noteq> [] \<Longrightarrow> clusterId (picker_go cid w) = Some cid"
  "cid \<noteq> [] \<Longrightarrow> suspended (picker_go cid w) = suspended w @ [LoadData_critical]"
  "cid = [] \<Longrightarrow> picker_go cid w = w"
  by (simp_all add: picker_go_def Let_def loadData_known_id)

lemma loadData_critical_resume_eq:
  assumes "api o1 = Inr ov" and "api o2 = Inr stats" and "api o3 = Inr vars"
  shows "loadData_critical_resume o1 o2 o3 w =
           maybeStartRefresh
             (loadSecondary
                (renderAll
                   (w\<lparr>overview := ov,
                      env := (case ov of None \<Rightarrow> None | Some data \<Rightarrow> cluster data),
                      resourceStats := stats, varCounts := vars, isLoading := False\<rparr>)))"
  using assms by (simp add: loadData_critical_resume_def)

lemma loadData_critical_resume_fields [simp]:
  "error (loadData_critical_resume o1 o2 o3 w) = error w"
  "clusterId (loadData_critical_resume o1 o2 o3 w) = clusterId w"
  "suspended (loadData_critical_resume o1 o2 o3 w) = suspended w @ [LoadSecondary]"
  "requests (loadData_critical_resume o1 o2 o3 w) = requests w @ [CostEnabledReq]"
  "activeTab (loadData_critical_resume o1 o2 o3 w) = activeTab w"
  "deployments (loadData_critical_resume o1 o2 o3 w) = deployments w"
  "resources (loadData_critical_resume o1 o2 o3 w) = resources w"
  "schedule (loadData_critical_resume o1 o2 o3 w) = schedule w"
proof -
  obtain ov stats vars where a: "api o1 = Inr ov" "api o2 = Inr stats" "api o3 = Inr vars"
    using api_total by metis
  show "error (loadData_critical_resume o1 o2 o3 w) = error w"
    "clusterId (loadData_critical_resume o1 o2 o3 w) = clusterId w"
    "suspended (loadData_critical_resume o1 o2 o3 w) = suspended w @ [LoadSecondary]"
    "requests (loadData_critical_resume o1 o2 o3 w) = requests w @ [CostEnabledReq]"
    "activeTab (loadData_critical_resume o1 o2 o3 w) = activeTab w"
    "deployments (loadData_critical_resume o1 o2 o3 w) = deployments w"
    "resources (loadData_critical_resume o1 o2 o3 w) = resources w"
    "schedule (loadData_critical_resume o1 o2 o3 w) = schedule w"
    by (simp_all add: loadData_critical_resume_eq [OF a])
qed

lemma loadData_critical_resume_tabs:
  "error w = None \<Longrightarrow> tabs_nav (shadowRoot (loadData_critical_resume o1 o2 o3 w))"
proof -
  assume e: "error w = None"
  obtain ov stats vars where a: "api o1 = Inr ov" "api o2 = Inr stats" "api o3 = Inr vars"
    using api_total by metis
  show ?thesis
    using e by (simp add: loadData_critical_resume_eq [OF a] renderAll_dom(1))
qed

subsection \<open>The invariant of a session\<close>







lemma resumeE:
  assumes "resume c rest w = Some w'"
  obtains "c \<in> set (suspended w)" and "w' = rest (w\<lparr>suspended := remove1 c (suspended w)\<rparr>)"
  using assms by (auto simp: resume_def split: if_splits)






lemmas session_defs = by_id_def by_name_def connectedCallback_def constructor_def
  answers_def fails_def overview_in_def no_fields_def

lemmas method_defs = resume_def loadData_def loadData_critical_def loadData_critical_resume_def
  loadData_resolve_resume_def resolveClusterId_resume_def loadData_catch_def
  loadSecondary_def loadSecondary_resume_def maybeStartRefresh_def refreshOverview_def
  refreshOverview_resume_def loadTabData_def loadTabData_releases_resume_def
  loadTabData_resources_resume_def loadTabData_schedule_resume_def switchTab_def
  hardRefresh_def reset_data_def renderAll_def renderHeader_def renderBanners_def
  renderCards_def renderTabsNav_def renderTabContent_def send_def suspend_def
  setInterval_def clearInterval_def api_def try_catch_def is_active_def activeStates_def
  has_in_progress_def tab_ids_def hasKubernetes_def

subsection \<open>Hard reload\<close>

text \<open>
  Claim C1. The session \<open>reload_on_releases\<close>: the releases tab is active and holds its
  data, after one request for it; the refresh button is clicked and the critical
  requests of the reload are answered. Afterwards the releases tab is still active,
  its data is \<^verbatim>\<open>null\<close>, its panel shows the "Loading..." placeholder, and no request
  for the releases has been sent since the reload, nor is one awaited: the requests
  sent since the click are the three critical ones and the cost probe.
\<close>

theorem reload_skips_active_tab:
  "map_option activeTab (run by_id reload_on_releases) = Some ''releases'' \<and>
   map_option deployments (run by_id (take 3 reload_on_releases)) = Some (Some ''[]'') \<and>
   map_option (sent (DeploymentsReq (Some ''c1''))) (run by_id (take 3 reload_on_releases)) =
     Some 1 \<and>
   map_option deployments (run by_id reload_on_releases) = Some None \<and>
   map_option (sent (DeploymentsReq (Some ''c1''))) (run by_id reload_on_releases) = Some 1 \<and>
   map_option (awaited LoadTabData_releases) (run by_id reload_on_releases) = Some 0 \<and>
   map_option (tab_content \<circ> shadowRoot) (run by_id reload_on_releases) = Some (ReleasesTab True) \<and>
   map_option (drop 5 \<circ> requests) (run by_id reload_on_releases) =
     Some [OverviewReq (Some ''c1''), ResourceStatsReq (Some ''c1''),
           VariableCountsReq (Some ''c1''), CostEnabledReq]"
  by (simp add: reload_on_releases_def session_defs method_defs sent_def awaited_def Let_def)

subsection \<open>Lazy tab fetches\<close>

text \<open>
  Claim C2, as it is stated, fails: in the session \<open>double_selection\<close> the releases tab
  is selected twice with no reload in between, and the request for the releases is
  sent twice.
\<close>

theorem double_selection_fetches_twice:
  "map_option (sent (DeploymentsReq (Some ''c1''))) (run by_id double_selection) = Some 2"
  by (simp add: double_selection_def session_defs method_defs sent_def Let_def)

lemma hasKubernetes_env: "env v = env w \<Longrightarrow> hasKubernetes v = hasKubernetes w"
  by (simp add: hasKubernetes_def)

lemma switchTab_requests:
  "requests (switchTab tab w) =
     requests w @
       (if tab = ''releases'' \<and> deployments w = None then [DeploymentsReq (clusterId w)]
        else if tab = ''resources'' \<and> resources w = None then
          ResourcesInfoReq (clusterId w) #
            (if hasKubernetes w then [IngressRulesReq (clusterId w)] else [])
        else if tab = ''schedule'' \<and> schedule w = None then
          [AvailabilityScheduleReq (clusterId w), MaintenanceWindowReq (clusterId w)]
        else [])"
proof -
  have k: "hasKubernetes (renderTabContent t (w\<lparr>activeTab := t\<rparr>)) = hasKubernetes w" for t
    by (rule hasKubernetes_env) simp
  show ?thesis
    unfolding switchTab_def
    by (simp add: loadTabData_def k Let_def)
qed

lemma loadTabData_resume_slot:
  "api out = Inr v \<Longrightarrow> deployments (loadTabData_releases_resume out w) = v"
  "api out = Inr v \<Longrightarrow> resources (loadTabData_resources_resume k out out' w) = v"
  "api out = Inr v \<Longrightarrow> schedule (loadTabData_schedule_resume out out' w) = v"
proof -
  obtain i m where "api out' = Inr i" "api out' = Inr m"
    using api_total by metis
  then show "api out = Inr v \<Longrightarrow> deployments (loadTabData_releases_resume out w) = v"
    "api out = Inr v \<Longrightarrow> resources (loadTabData_resources_resume k out out' w) = v"
    "api out = Inr v \<Longrightarrow> schedule (loadTabData_schedule_resume out out' w) = v"
    by (simp_all add: loadTabData_releases_resume_def loadTabData_resources_resume_def
        loadTabData_schedule_resume_def Let_def)
qed

lemma click_tab:
  "step w (Click_tab tab) = Some w' \<Longrightarrow> w' = switchTab tab w"
  by (simp split: if_splits)

text \<open>
  Claim C2, amended. A selection of a lazy tab sends the requests of the tab exactly
  when the field that holds the data of the tab (\<^verbatim>\<open>deployments\<close>, \<^verbatim>\<open>resources\<close>,
  \<^verbatim>\<open>schedule\<close>) is \<^verbatim>\<open>null\<close> at that moment, and sends nothing otherwise. So a selection
  that follows the arrival of the data sends nothing.
\<close>

theorem lazy_fetch_guard:
  "(step w (Click_tab tab) = Some w' \<longrightarrow>
     (tab = ''releases'' \<longrightarrow>
        requests w' =
          requests w @ (if deployments w = None then [DeploymentsReq (clusterId w)] else [])) \<and>
     (tab = ''resources'' \<longrightarrow>
        requests w' =
          requests w @
            (if resources w = None
             then ResourcesInfoReq (clusterId w) #
                    (if hasKubernetes w then [IngressRulesReq (clusterId w)] else [])
             else [])) \<and>
     (tab = ''schedule'' \<longrightarrow>
        requests w' =
          requests w @
            (if schedule w = None
             then [AvailabilityScheduleReq (clusterId w), MaintenanceWindowReq (clusterId w)]
             else []))) \<and>
   (step w (Releases_settled out) = Some v \<and> api out = Inr (Some d) \<and>
    step v (Click_tab ''releases'') = Some w' \<longrightarrow> requests w' = requests w) \<and>
   (step w (Resources_settled k out out') = Some v \<and> api out = Inr (Some d) \<and>
    step v (Click_tab ''resources'') = Some w' \<longrightarrow> requests w' = requests w) \<and>
   (step w (Schedule_settled out out') = Some v \<and> api out = Inr (Some d) \<and>
    step v (Click_tab ''schedule'') = Some w' \<longrightarrow> requests w' = requests w)"
proof (intro conjI impI)
  assume "step w (Click_tab tab) = Some w'"
  then have w': "w' = switchTab tab w" by (rule click_tab)
  show "requests w' =
          requests w @ (if deployments w = None then [DeploymentsReq (clusterId w)] else [])"
    if "tab = ''releases''"
    using that by (simp add: w' switchTab_requests)
  show "requests w' =
          requests w @
            (if resources w = None
             then ResourcesInfoReq (clusterId w) #
                    (if hasKubernetes w then [IngressRulesReq (clusterId w)] else [])
             else [])"
    if "tab = ''resources''"
    using that by (simp add: w' switchTab_requests)
  show "requests w' =
          requests w @
            (if schedule w = None
             then [AvailabilityScheduleReq (clusterId w), MaintenanceWindowReq (clusterId w)]
             else [])"
    if "tab = ''schedule''"
    using that by (simp add: w' switchTab_requests)
next
  assume a: "step w (Releases_settled out) = Some v \<and> api out = Inr (Some d) \<and>
    step v (Click_tab ''releases'') = Some w'"
  then have "deployments v = Some d" and "requests v = requests w"
    by (auto elim!: resumeE simp: loadTabData_resume_slot)
  moreover from a have "w' = switchTab ''releases'' v"
    using click_tab by blast
  ultimately show "requests w' = requests w"
    by (simp add: switchTab_requests)
next
  assume a: "step w (Resources_settled k out out') = Some v \<and> api out = Inr (Some d) \<and>
    step v (Click_tab ''resources'') = Some w'"
  then have "resources v = Some d" and "requests v = requests w"
    by (auto elim!: resumeE simp: loadTabData_resume_slot)
  moreover from a have "w' = switchTab ''resources'' v"
    using click_tab by blast
  ultimately show "requests w' = requests w"
    by (simp add: switchTab_requests)
next
  assume a: "step w (Schedule_settled out out') = Some v \<and> api out = Inr (Some d) \<and>
    step v (Click_tab ''schedule'') = Some w'"
  then have "schedule v = Some d" and "requests v = requests w"
    by (auto elim!: resumeE simp: loadTabData_resume_slot)
  moreover from a have "w' = switchTab ''schedule'' v"
    using click_tab by blast
  ultimately show "requests w' = requests w"
    by (simp add: switchTab_requests)
qed

lemma loaded_fields:
  "tabs_nav (shadowRoot loaded)" "deployments loaded = None" "clusterId loaded = Some ''c1''"
  "error loaded = None" "suspended loaded = [LoadSecondary]" "timers loaded = []"
  "activeTab loaded = ''overview''"
  by (simp_all add: loaded_def session_defs method_defs Let_def)

lemma launching_fields:
  "tabs_nav (shadowRoot launching)" "clusterId launching = Some ''c1''"
  "error launching = None" "suspended launching = [LoadSecondary]"
  "timers launching = [(1, 15000)]" "refreshTimer launching = Some 1"
  "next_timer launching = 2" "overview launching = Some (overview_in ''LAUNCHING'')"
  "activeTab launching = ''overview''"
  by (simp_all add: launching_def session_defs method_defs Let_def)

lemma run_loaded:
  "run by_id [Critical_settled (answers (overview_in ''RUNNING'')) (answers ''{}'') fails] =
     Some loaded"
  by (simp add: loaded_def resume_def) (simp add: session_defs method_defs)


theorem lazy_fetch_guard_witness:
  "step loaded (Click_tab ''releases'') = Some (switchTab ''releases'' loaded) \<and>
   deployments loaded = None \<and>
   requests (switchTab ''releases'' loaded) = requests loaded @ [DeploymentsReq (Some ''c1'')] \<and>
   step (switchTab ''releases'' loaded) (Releases_settled (answers ''[]'')) =
     Some (loadTabData_releases_resume (answers ''[]'') (switchTab ''releases'' loaded\<lparr>suspended := [LoadSecondary]\<rparr>)) \<and>
   api (answers ''[]'') = Inr (Some ''[]'') \<and>
   step (loadTabData_releases_resume (answers ''[]'') (switchTab ''releases'' loaded\<lparr>suspended := [LoadSecondary]\<rparr>))
     (Click_tab ''releases'') =
     Some (switchTab ''releases'' (loadTabData_releases_resume (answers ''[]'') (switchTab ''releases'' loaded\<lparr>suspended := [LoadSecondary]\<rparr>))) \<and>
   requests (switchTab ''releases''
       (loadTabData_releases_resume (answers ''[]'') (switchTab ''releases'' loaded\<lparr>suspended := [LoadSecondary]\<rparr>))) =
     requests (switchTab ''releases'' loaded)"
proof -
  let ?w = "switchTab ''releases'' loaded"
  let ?v = "loadTabData_releases_resume (answers ''[]'') (?w\<lparr>suspended := [LoadSecondary]\<rparr>)"
  have 1: "step loaded (Click_tab ''releases'') = Some ?w"
    by (simp add: loaded_fields tab_ids_def)
  have s: "suspended ?w = [LoadSecondary, LoadTabData_releases]"
    by (simp add: switchTab_def loadTabData_def loaded_fields)
  have 2: "step ?w (Releases_settled (answers ''[]'')) = Some ?v"
    by (simp add: resume_def s)
  have 3: "api (answers ''[]'') = Inr (Some ''[]'')"
    by (simp add: api_def answers_def try_catch_def)
  have 4: "step ?v (Click_tab ''releases'') = Some (switchTab ''releases'' ?v)"
    by (simp add: loaded_fields tab_ids_def)
  show ?thesis
    using lazy_fetch_guard [of loaded "''releases''" ?w]
      lazy_fetch_guard [of ?w _ "switchTab ''releases'' ?v" "answers ''[]''" ?v "''[]''"]
      1 2 3 4
    by (simp add: loaded_fields)
qed

subsection \<open>The refresh timer\<close>






lemma refresh_settled_data:
  assumes "step w (Refresh_settled out) = Some w'" and "api out = Inr (Some fresh)"
  shows "overview w' = Some fresh"
    and "env w' = (case cluster fresh of Some c \<Rightarrow> Some c | None \<Rightarrow> env w)"
    and "\<not> pollingActive w' \<Longrightarrow> refreshTimer w' = None"
    and "\<not> pollingActive w' \<Longrightarrow>
           timers w' = filter (\<lambda>t. Some (fst t) \<noteq> refreshTimer w) (timers w)"
    and "pollingActive w' \<Longrightarrow> refreshTimer w' = refreshTimer w"
    and "pollingActive w' \<Longrightarrow> timers w' = timers w"
proof -
  from assms(1) have w': "w' = refreshOverview_resume out
      (w\<lparr>suspended := remove1 RefreshOverview (suspended w)\<rparr>)"
    by (auto elim: resumeE)
  show "overview w' = Some fresh"
    and "env w' = (case cluster fresh of Some c \<Rightarrow> Some c | None \<Rightarrow> env w)"
    by (simp_all add: w' refreshOverview_resume_def assms(2) Let_def renderHeader_def
        renderBanners_def renderCards_def clearInterval_def split: option.splits)
  show "refreshTimer w' = None" if "\<not> pollingActive w'"
    using that
    by (auto simp: w' refreshOverview_resume_def assms(2) Let_def renderHeader_def
        renderBanners_def renderCards_def clearInterval_def pollingActive_def
        split: option.splits if_splits)
  show "timers w' = filter (\<lambda>t. Some (fst t) \<noteq> refreshTimer w) (timers w)"
    if "\<not> pollingActive w'"
    using that
    by (auto simp: w' refreshOverview_resume_def assms(2) Let_def renderHeader_def
        renderBanners_def renderCards_def clearInterval_def pollingActive_def
        split: option.splits if_splits)
  show "refreshTimer w' = refreshTimer w" if "pollingActive w'"
    using that
    by (auto simp: w' refreshOverview_resume_def assms(2) Let_def renderHeader_def
        renderBanners_def renderCards_def clearInterval_def pollingActive_def
        split: option.splits if_splits)
  show "timers w' = timers w" if "pollingActive w'"
    using that
    by (auto simp: w' refreshOverview_resume_def assms(2) Let_def renderHeader_def
        renderBanners_def renderCards_def clearInterval_def pollingActive_def
        split: option.splits if_splits)
qed

lemma refresh_settled_absent:
  assumes "step w (Refresh_settled out) = Some w'" and "api out = Inr None"
  shows "w' = w\<lparr>suspended := remove1 RefreshOverview (suspended w)\<rparr>"
  using assms by (auto elim!: resumeE simp: refreshOverview_resume_def)



lemma api_answers: "api (answers d) = Inr (Some d)"
  by (simp add: api_def answers_def try_catch_def)



subsection \<open>Stale answers\<close>

text \<open>
  Claim C4, as it is stated, fails: in the session \<open>reload_during_tick\<close> the reload has
  stored the overview of a running environment while the request of an earlier tick
  is still awaited, and in \<open>stale_answer\<close> the answer to that request, which says
  launching, replaces it.
\<close>

theorem stale_answer_overwrites:
  "map_option overview (run by_id reload_during_tick) = Some (Some (overview_in ''RUNNING'')) \<and>
   map_option (awaited RefreshOverview) (run by_id reload_during_tick) = Some 1 \<and>
   map_option overview (run by_id stale_answer) = Some (Some (overview_in ''LAUNCHING'')) \<and>
   map_option env (run by_id stale_answer) =
     Some (Some (no_fields\<lparr>clusterState := Some ''LAUNCHING''\<rparr>))"
  by (simp add: stale_answer_def reload_during_tick_def session_defs method_defs awaited_def
      Let_def)

text \<open>
  Claim C4, amended. The widget keeps no session token. A reload leaves a suspended
  \<open>_refreshOverview\<close> suspended, its answer is accepted in whatever state it arrives,
  and an answer that carries data replaces \<^verbatim>\<open>overview\<close> (and \<^verbatim>\<open>env\<close>, when it has a
  cluster); only an absent answer leaves the state as it is.
\<close>

theorem refresh_answer_is_not_checked:
  "(RefreshOverview \<in> set (suspended w) \<and> step w Click_refresh = Some v \<longrightarrow>
      RefreshOverview \<in> set (suspended v)) \<and>
   (RefreshOverview \<in> set (suspended w) \<longrightarrow> step w (Refresh_settled out) \<noteq> None) \<and>
   (step w (Refresh_settled out) = Some w' \<and> api out = Inr (Some fresh) \<longrightarrow>
      overview w' = Some fresh \<and>
      env w' = (case cluster fresh of Some c \<Rightarrow> Some c | None \<Rightarrow> env w)) \<and>
   (step w (Refresh_settled out) = Some w' \<and> api out = Inr None \<longrightarrow>
      w' = w\<lparr>suspended := remove1 RefreshOverview (suspended w)\<rparr>)"
proof (intro conjI impI)
  assume "RefreshOverview \<in> set (suspended w) \<and> step w Click_refresh = Some v"
  then show "RefreshOverview \<in> set (suspended v)"
    by (auto simp: hardRefresh_def Let_def loadData_def loadData_critical_def
        split: if_splits)
next
  assume "RefreshOverview \<in> set (suspended w)"
  then show "step w (Refresh_settled out) \<noteq> None"
    by (simp add: resume_def)
next
  assume a: "step w (Refresh_settled out) = Some w' \<and> api out = Inr (Some fresh)"
  then show "overview w' = Some fresh"
    using refresh_settled_data(1) by blast
  from a show "env w' = (case cluster fresh of Some c \<Rightarrow> Some c | None \<Rightarrow> env w)"
    using refresh_settled_data(2) by blast
next
  assume "step w (Refresh_settled out) = Some w' \<and> api out = Inr None"
  then show "w' = w\<lparr>suspended := remove1 RefreshOverview (suspended w)\<rparr>"
    using refresh_settled_absent by blast
qed

theorem refresh_answer_is_not_checked_witness:
  "RefreshOverview \<in> set (suspended (refreshOverview launching)) \<and>
   step (refreshOverview launching) Click_refresh = Some (hardRefresh (refreshOverview launching)) \<and>
   RefreshOverview \<in> set (suspended (hardRefresh (refreshOverview launching))) \<and>
   step (hardRefresh (refreshOverview launching))
     (Refresh_settled (answers (overview_in ''LAUNCHING''))) =
     Some (refreshOverview_resume (answers (overview_in ''LAUNCHING''))
       (hardRefresh (refreshOverview launching)\<lparr>suspended := [LoadSecondary, LoadData_critical]\<rparr>)) \<and>
   overview (hardRefresh (refreshOverview launching)) = None \<and>
   overview (refreshOverview_resume (answers (overview_in ''LAUNCHING''))
       (hardRefresh (refreshOverview launching)\<lparr>suspended := [LoadSecondary, LoadData_critical]\<rparr>)) =
     Some (overview_in ''LAUNCHING'')"
proof -
  let ?t = "refreshOverview launching"
  let ?h = "hardRefresh ?t"
  let ?r = "refreshOverview_resume (answers (overview_in ''LAUNCHING''))
       (?h\<lparr>suspended := [LoadSecondary, LoadData_critical]\<rparr>)"
  have 1: "RefreshOverview \<in> set (suspended ?t)"
    by (simp add: launching_fields)
  have 2: "step ?t Click_refresh = Some ?h"
    by (simp add: launching_fields)
  have s: "suspended ?h = [LoadSecondary, RefreshOverview, LoadData_critical]"
    by (simp add: hardRefresh_known_id launching_fields)
  have 3: "step ?h (Refresh_settled (answers (overview_in ''LAUNCHING''))) = Some ?r"
    by (simp add: resume_def s)
  show ?thesis
    using refresh_answer_is_not_checked [of ?t ?h]
      refresh_answer_is_not_checked [of ?h _ "answers (overview_in ''LAUNCHING'')" ?r
        "overview_in ''LAUNCHING''"]
      1 2 3
    by (simp add: api_answers)
qed

subsection \<open>Failure\<close>






end
